theory Spec2Isabelle
  imports Complex_Main
begin

text \<open>
  A shallow embedding of NanoPlot.py, the driver of NanoPlot: \<^verbatim>\<open>main\<close>, \<^verbatim>\<open>make_stats\<close>,
  \<^verbatim>\<open>make_plots\<close> and \<^verbatim>\<open>make_report\<close>. The functions are modelled as computations
  that yield the sequence of their effects (log records, output, files, calls of the
  plotting backend) together with their value or the exception they raise; the
  libraries they call are parameters.
\<close>

section \<open>Data model\<close>

text \<open>
  A pandas DataFrame is a table with named columns. A cell holds a boolean, an integer,
  a float, a string, or is missing (NaN). A row is an association list from column name
  to cell, a column that a row does not mention reads as NaN.
\<close>

datatype cell = CBool bool | CInt int | CFloat real | CStr string | CNaN

type_synonym row = "(string \<times> cell) list"

record dataframe =
  columns :: "string list"
  rows :: "row list"

datatype error = KeyError string | IndexError | TypeError | ExternalError string

definition cell_of :: "row \<Rightarrow> string \<Rightarrow> cell" where
  "cell_of r c = (case map_of r c of None \<Rightarrow> CNaN | Some v \<Rightarrow> v)"

text \<open>\<^verbatim>\<open>name in datadf\<close>: membership among the column labels.\<close>

definition df_contains :: "dataframe \<Rightarrow> string \<Rightarrow> bool" where
  "df_contains d c = (c \<in> set (columns d))"

text \<open>\<^verbatim>\<open>datadf[name]\<close>: the column as a series, KeyError when the label is absent.\<close>

definition df_getitem :: "dataframe \<Rightarrow> string \<Rightarrow> error + cell list" where
  "df_getitem d c =
     (if c \<in> set (columns d) then Inr (map (\<lambda>r. cell_of r c) (rows d))
      else Inl (KeyError c))"

text \<open>\<^verbatim>\<open>datadf[mask]\<close>: the rows at which a boolean series is true.\<close>

definition df_mask :: "dataframe \<Rightarrow> bool list \<Rightarrow> dataframe" where
  "df_mask d m = d\<lparr>rows := map snd (filter fst (zip m (rows d)))\<rparr>"

text \<open>A boolean column read as a mask.\<close>

definition as_mask :: "cell list \<Rightarrow> bool list" where
  "as_mask vs = map (\<lambda>v. v = CBool True) vs"

text \<open>\<^verbatim>\<open>series == value\<close>, elementwise; NaN equals nothing.\<close>

definition series_eq :: "cell list \<Rightarrow> cell \<Rightarrow> bool list" where
  "series_eq vs v = map (\<lambda>x. x = v \<and> x \<noteq> CNaN) vs"

definition df_len :: "dataframe \<Rightarrow> nat" where
  "df_len d = length (rows d)"

text \<open>\<^verbatim>\<open>series.unique()\<close>: the distinct values in order of first occurrence.\<close>

fun unique :: "'a list \<Rightarrow> 'a list" where
  "unique [] = []"
| "unique (x # xs) = x # unique (filter (\<lambda>y. y \<noteq> x) xs)"

text \<open>A Plot object of the rendering backend: a title and the path of its artifact.\<close>

record plot =
  plot_title :: string
  plot_path :: string

text \<open>
  The settings dictionary. It is \<^verbatim>\<open>vars(args)\<close>, the parsed command line, to which
  \<^verbatim>\<open>main\<close> adds the keys path and statsfile and the filtering stage the keys filtered,
  lengths_pointer and logBool; each of these is written before it is first read.
\<close>

record settings =
  outdir :: string
  prefix :: string
  store :: bool
  raw :: bool
  path :: string
  title :: "string option"
  format :: string
  color :: string
  plots :: "string list"
  N50 :: bool
  font_scale :: real
  dpi :: int
  barcoded :: bool
  logBool :: bool
  lengths_pointer :: string
  filtered :: bool
  statsfile :: "string list"

section \<open>The rendering backend and other collaborators\<close>

text \<open>The keyword arguments of the four plotting functions of nanoplotter.\<close>

record length_plots_args =
  lp_array :: "cell list"
  lp_name :: string
  lp_path :: string
  lp_n50 :: "cell option"
  lp_color :: string
  lp_figformat :: string
  lp_title :: "string option"

record scatter_args =
  sc_x :: "cell list"
  sc_y :: "cell list"
  sc_names :: "string list"
  sc_path :: string
  sc_color :: string
  sc_figformat :: string
  sc_plots :: "(string \<times> nat) list"
  sc_log :: "bool option"
  sc_stat :: "string option"
  sc_minvalx :: "cell option"
  sc_minvaly :: "cell option"
  sc_title :: "string option"
  sc_plot_settings :: "(string \<times> real) list"

record spatial_heatmap_args =
  hm_array :: "cell list"
  hm_title :: "string option"
  hm_path :: string
  hm_color :: string
  hm_figformat :: string

record time_plots_args =
  tp_df :: dataframe
  tp_path :: string
  tp_color :: string
  tp_figformat :: string
  tp_title :: "string option"
  tp_log_length :: bool
  tp_plot_settings :: "(string \<times> real) list"

datatype call =
    Length_plots length_plots_args
  | Scatter scatter_args
  | Spatial_heatmap spatial_heatmap_args
  | Time_plots time_plots_args

text \<open>
  Everything the program does to the outside, in the order it happens: log records,
  lines printed to standard output, writes to standard error, statistics files written by
  \<^verbatim>\<open>nanomath.write_stats(datadfs, outputfile, names)\<close>, calls of the rendering backend,
  and files written.
\<close>

datatype event =
    LogInfo string
  | LogError error
  | Print string
  | StderrWrite string
  | WriteStats "dataframe list" string "cell list option"
  | PlotSettings "(string \<times> real) list" int
  | Render call
  | WriteFile string string
  | PickleDump dataframe string
  | ToCsv dataframe string
  | MakeOutputDir string
  | InitLogs

text \<open>
  The collaborators that are not part of the orchestration code are parameters: the
  functions of nanoplotter, nanomath, numpy and \<^verbatim>\<open>nanoplot.utils\<close>, the text that
  \<^verbatim>\<open>str.format\<close> gives for a value that is not a string, and the filtering stage.

  Modelled from the spec: \<^verbatim>\<open>filter_and_transform_data\<close> of \<^verbatim>\<open>nanoplot.filteroptions\<close>
  is missing; it is taken as a function that returns the transformed dataset, the flag
  that says whether anything was filtered, the name of the length column to treat as
  canonical, and the logarithmic-scale flag, which \<^verbatim>\<open>main\<close> finds in the settings
  afterwards under the keys filtered, lengths_pointer and logBool.
\<close>

record backend =
  check_valid_color :: "string \<Rightarrow> string"
  check_valid_format :: "string \<Rightarrow> string"
  np_sort :: "cell list \<Rightarrow> cell list"
  get_N50 :: "cell list \<Rightarrow> cell"
  np_percentile :: "cell list \<Rightarrow> nat \<Rightarrow> cell"
  render :: "call \<Rightarrow> plot list"
  encode :: "plot \<Rightarrow> string"
  stats2html :: "string \<Rightarrow> string"
  html_head :: string
  repr_cell :: "cell \<Rightarrow> string"
  filter_and_transform_data :: "dataframe \<Rightarrow> settings \<Rightarrow> dataframe \<times> bool \<times> string \<times> bool"

section \<open>Computations with effects and exceptions\<close>

text \<open>
  A computation yields the events it produced and either the exception it raised or its
  value. The events before a raise are kept.
\<close>

type_synonym 'a prog = "event list \<times> (error + 'a)"

definition returnP :: "'a \<Rightarrow> 'a prog" where
  "returnP x = ([], Inr x)"

definition raiseP :: "error \<Rightarrow> 'a prog" where
  "raiseP e = ([], Inl e)"

definition liftE :: "error + 'a \<Rightarrow> 'a prog" where
  "liftE r = ([], r)"

definition emit :: "event \<Rightarrow> unit prog" where
  "emit ev = ([ev], Inr ())"

definition bindP :: "'a prog \<Rightarrow> ('a \<Rightarrow> 'b prog) \<Rightarrow> 'b prog" where
  "bindP m f =
     (case snd m of
        Inl e \<Rightarrow> (fst m, Inl e)
      | Inr x \<Rightarrow> (fst m @ fst (f x), snd (f x)))"

text \<open>A call of a plotting function of nanoplotter: recorded, and answered by the backend.\<close>

definition nanoplotter :: "backend \<Rightarrow> call \<Rightarrow> plot list prog" where
  "nanoplotter ext c = ([Render c], Inr (render ext c))"

section \<open>make_plots\<close>

text \<open>
  Each \<^verbatim>\<open>plots.extend(...)\<close> of make_plots is a function that yields the plots to append,
  none when its column test fails; make_plots appends them to its list in turn.
\<close>

text \<open>\<^verbatim>\<open>datadf[datadf["length_filter"]][name]\<close>\<close>

definition filtered_column :: "dataframe \<Rightarrow> string \<Rightarrow> error + cell list" where
  "filtered_column datadf name =
     (case df_getitem datadf ''length_filter'' of
        Inl e \<Rightarrow> Inl e
      | Inr lf \<Rightarrow> df_getitem (df_mask datadf (as_mask lf)) name)"

definition plots_length ::
  "backend \<Rightarrow> dataframe \<Rightarrow> settings \<Rightarrow> string \<Rightarrow> cell option \<Rightarrow> plot list prog" where
  "plots_length ext datadf st color_v n50 =
     bindP (liftE (filtered_column datadf ''lengths'')) (\<lambda>arr.
     bindP (nanoplotter ext (Length_plots
              \<lparr>lp_array = arr, lp_name = ''Read length'', lp_path = path st, lp_n50 = n50,
               lp_color = color_v, lp_figformat = format st, lp_title = title st\<rparr>)) (\<lambda>new.
     bindP (emit (LogInfo ''Created length plots'')) (\<lambda>_.
     returnP new)))"

definition plots_quals ::
  "backend \<Rightarrow> dataframe \<Rightarrow> settings \<Rightarrow> string \<Rightarrow> (string \<times> nat) list \<Rightarrow>
   (string \<times> real) list \<Rightarrow> plot list prog" where
  "plots_quals ext datadf st color_v plotdict plot_settings =
     (if df_contains datadf ''quals'' then
        bindP (liftE (filtered_column datadf (lengths_pointer st))) (\<lambda>xs.
        bindP (liftE (filtered_column datadf ''quals'')) (\<lambda>ys.
        bindP (nanoplotter ext (Scatter
                 \<lparr>sc_x = xs, sc_y = ys,
                  sc_names = [''Read lengths'', ''Average read quality''],
                  sc_path = path st @ ''LengthvsQualityScatterPlot'',
                  sc_color = color_v, sc_figformat = format st, sc_plots = plotdict,
                  sc_log = Some (logBool st), sc_stat = None, sc_minvalx = None,
                  sc_minvaly = None, sc_title = title st,
                  sc_plot_settings = plot_settings\<rparr>)) (\<lambda>new.
        bindP (emit (LogInfo ''Created LengthvsQual plot'')) (\<lambda>_.
        returnP new))))
      else returnP [])"

definition plots_channels ::
  "backend \<Rightarrow> dataframe \<Rightarrow> settings \<Rightarrow> plot list prog" where
  "plots_channels ext datadf st =
     (if df_contains datadf ''channelIDs'' then
        bindP (liftE (df_getitem datadf ''channelIDs'')) (\<lambda>arr.
        bindP (nanoplotter ext (Spatial_heatmap
                 \<lparr>hm_array = arr, hm_title = title st,
                  hm_path = path st @ ''ActivityMap_ReadsPerChannel'',
                  hm_color = ''Greens'', hm_figformat = format st\<rparr>)) (\<lambda>new.
        bindP (emit (LogInfo ''Created spatialheatmap for succesfull basecalls.'')) (\<lambda>_.
        returnP new)))
      else returnP [])"

definition plots_time ::
  "backend \<Rightarrow> dataframe \<Rightarrow> settings \<Rightarrow> string \<Rightarrow> (string \<times> real) list \<Rightarrow>
   plot list prog" where
  "plots_time ext datadf st color_v plot_settings =
     (if df_contains datadf ''start_time'' then
        bindP (nanoplotter ext (Time_plots
                 \<lparr>tp_df = datadf, tp_path = path st, tp_color = color_v,
                  tp_figformat = format st, tp_title = title st,
                  tp_log_length = logBool st, tp_plot_settings = plot_settings\<rparr>)) (\<lambda>new.
        bindP (emit (LogInfo ''Created timeplots.'')) (\<lambda>_.
        returnP new))
      else returnP [])"

definition plots_aligned ::
  "backend \<Rightarrow> dataframe \<Rightarrow> settings \<Rightarrow> string \<Rightarrow> (string \<times> nat) list \<Rightarrow>
   (string \<times> real) list \<Rightarrow> plot list prog" where
  "plots_aligned ext datadf st color_v plotdict plot_settings =
     (if df_contains datadf ''aligned_lengths'' \<and> df_contains datadf ''lengths'' then
        bindP (liftE (filtered_column datadf ''aligned_lengths'')) (\<lambda>xs.
        bindP (liftE (filtered_column datadf ''lengths'')) (\<lambda>ys.
        bindP (nanoplotter ext (Scatter
                 \<lparr>sc_x = xs, sc_y = ys,
                  sc_names = [''Aligned read lengths'', ''Sequenced read length''],
                  sc_path = path st @ ''AlignedReadlengthvsSequencedReadLength'',
                  sc_color = color_v, sc_figformat = format st, sc_plots = plotdict,
                  sc_log = None, sc_stat = None, sc_minvalx = None,
                  sc_minvaly = None, sc_title = title st,
                  sc_plot_settings = plot_settings\<rparr>)) (\<lambda>new.
        bindP (emit (LogInfo ''Created AlignedLength vs Length plot.'')) (\<lambda>_.
        returnP new))))
      else returnP [])"

definition plots_mapq ::
  "backend \<Rightarrow> dataframe \<Rightarrow> settings \<Rightarrow> string \<Rightarrow> (string \<times> nat) list \<Rightarrow>
   (string \<times> real) list \<Rightarrow> plot list prog" where
  "plots_mapq ext datadf st color_v plotdict plot_settings =
     (if df_contains datadf ''mapQ'' \<and> df_contains datadf ''quals'' then
        bindP (liftE (df_getitem datadf ''mapQ'')) (\<lambda>xs.
        bindP (liftE (df_getitem datadf ''quals'')) (\<lambda>ys.
        bindP (nanoplotter ext (Scatter
                 \<lparr>sc_x = xs, sc_y = ys,
                  sc_names = [''Read mapping quality'', ''Average basecall quality''],
                  sc_path = path st @ ''MappingQualityvsAverageBaseQuality'',
                  sc_color = color_v, sc_figformat = format st, sc_plots = plotdict,
                  sc_log = None, sc_stat = None, sc_minvalx = None,
                  sc_minvaly = None, sc_title = title st,
                  sc_plot_settings = plot_settings\<rparr>)) (\<lambda>new.
        bindP (emit (LogInfo ''Created MapQvsBaseQ plot.'')) (\<lambda>_.
        bindP (liftE (filtered_column datadf (lengths_pointer st))) (\<lambda>xs2.
        bindP (liftE (filtered_column datadf ''mapQ'')) (\<lambda>ys2.
        bindP (nanoplotter ext (Scatter
                 \<lparr>sc_x = xs2, sc_y = ys2,
                  sc_names = [''Read length'', ''Read mapping quality''],
                  sc_path = path st @ ''MappingQualityvsReadLength'',
                  sc_color = color_v, sc_figformat = format st, sc_plots = plotdict,
                  sc_log = Some (logBool st), sc_stat = None, sc_minvalx = None,
                  sc_minvaly = None, sc_title = title st,
                  sc_plot_settings = plot_settings\<rparr>)) (\<lambda>new2.
        bindP (emit (LogInfo ''Created Mapping quality vs read length plot.'')) (\<lambda>_.
        returnP (new @ new2)))))))))
      else returnP [])"

definition plots_pid ::
  "backend \<Rightarrow> dataframe \<Rightarrow> settings \<Rightarrow> string \<Rightarrow> (string \<times> nat) list \<Rightarrow>
   (string \<times> real) list \<Rightarrow> plot list prog" where
  "plots_pid ext datadf st color_v plotdict plot_settings =
     (if df_contains datadf ''percentIdentity'' then
        bindP (liftE (df_getitem datadf ''percentIdentity'')) (\<lambda>pid.
        let minPID = np_percentile ext pid 1 in
        bindP (if df_contains datadf ''aligned_quals'' then
                 bindP (liftE (df_getitem datadf ''percentIdentity'')) (\<lambda>xs.
                 bindP (liftE (df_getitem datadf ''aligned_quals'')) (\<lambda>ys.
                 bindP (nanoplotter ext (Scatter
                          \<lparr>sc_x = xs, sc_y = ys,
                           sc_names = [''Percent identity'', ''Average Base Quality''],
                           sc_path = path st @ ''PercentIdentityvsAverageBaseQuality'',
                           sc_color = color_v, sc_figformat = format st,
                           sc_plots = plotdict, sc_log = None,
                           sc_stat = Some ''pearsonr'', sc_minvalx = Some minPID,
                           sc_minvaly = None, sc_title = title st,
                           sc_plot_settings = plot_settings\<rparr>)) (\<lambda>new.
                 bindP (emit (LogInfo ''Created Percent ID vs Base quality plot.'')) (\<lambda>_.
                 returnP new))))
               else returnP []) (\<lambda>new.
        bindP (liftE (filtered_column datadf (lengths_pointer st))) (\<lambda>xs2.
        bindP (liftE (filtered_column datadf ''percentIdentity'')) (\<lambda>ys2.
        bindP (nanoplotter ext (Scatter
                 \<lparr>sc_x = xs2, sc_y = ys2,
                  sc_names = [''Aligned read length'', ''Percent identity''],
                  sc_path = path st @ ''PercentIdentityvsAlignedReadLength'',
                  sc_color = color_v, sc_figformat = format st, sc_plots = plotdict,
                  sc_log = Some (logBool st), sc_stat = Some ''pearsonr'',
                  sc_minvalx = None, sc_minvaly = Some minPID, sc_title = title st,
                  sc_plot_settings = plot_settings\<rparr>)) (\<lambda>new2.
        bindP (emit (LogInfo ''Created Percent ID vs Length plot'')) (\<lambda>_.
        returnP (new @ new2)))))))
      else returnP [])"

definition make_plots :: "backend \<Rightarrow> dataframe \<Rightarrow> settings \<Rightarrow> plot list prog" where
  "make_plots ext datadf st =
     (let plot_settings = [(''font_scale'', font_scale st)] in
      bindP (emit (PlotSettings plot_settings (dpi st))) (\<lambda>_.
      let color_v = check_valid_color ext (color st);
          plotdict = map (\<lambda>t. (t, count_list (plots st) t))
                       [''kde'', ''hex'', ''dot'', ''pauvre''] in
      bindP (if N50 st then
               bindP (liftE (df_getitem datadf ''lengths'')) (\<lambda>l.
               returnP (Some (get_N50 ext (np_sort ext l))))
             else returnP None) (\<lambda>n50.
      bindP (plots_length ext datadf st color_v n50) (\<lambda>new1.
      let ps1 = [] @ new1 in
      bindP (plots_quals ext datadf st color_v plotdict plot_settings) (\<lambda>new2.
      let ps2 = ps1 @ new2 in
      bindP (plots_channels ext datadf st) (\<lambda>new3.
      let ps3 = ps2 @ new3 in
      bindP (plots_time ext datadf st color_v plot_settings) (\<lambda>new4.
      let ps4 = ps3 @ new4 in
      bindP (plots_aligned ext datadf st color_v plotdict plot_settings) (\<lambda>new5.
      let ps5 = ps4 @ new5 in
      bindP (plots_mapq ext datadf st color_v plotdict plot_settings) (\<lambda>new6.
      let ps6 = ps5 @ new6 in
      bindP (plots_pid ext datadf st color_v plotdict plot_settings) (\<lambda>new7.
      let ps7 = ps6 @ new7 in
      returnP ps7))))))))))"

section \<open>make_stats\<close>

text \<open>\<^verbatim>\<open>datadf[datadf["barcode"] == b]\<close>\<close>

definition barcode_subset :: "dataframe \<Rightarrow> cell \<Rightarrow> error + dataframe" where
  "barcode_subset datadf b =
     (case df_getitem datadf ''barcode'' of
        Inl e \<Rightarrow> Inl e
      | Inr col \<Rightarrow> Inr (df_mask datadf (series_eq col b)))"

fun mapE :: "('a \<Rightarrow> error + 'b) \<Rightarrow> 'a list \<Rightarrow> error + 'b list" where
  "mapE f [] = Inr []"
| "mapE f (x # xs) =
     (case f x of
        Inl e \<Rightarrow> Inl e
      | Inr y \<Rightarrow> (case mapE f xs of Inl e \<Rightarrow> Inl e | Inr ys \<Rightarrow> Inr (y # ys)))"

definition make_stats :: "dataframe \<Rightarrow> settings \<Rightarrow> string \<Rightarrow> string prog" where
  "make_stats datadf st suffix =
     (let statsfile_v = path st @ ''NanoStats'' @ suffix @ ''.txt'' in
      bindP (emit (WriteStats [datadf] statsfile_v None)) (\<lambda>_.
      bindP (emit (LogInfo ''Calculated statistics'')) (\<lambda>_.
      if barcoded st then
        bindP (liftE (df_getitem datadf ''barcode'')) (\<lambda>bc.
        let barcodes = unique bc;
            statsfile_b = path st @ ''NanoStats_barcoded.txt'' in
        bindP (liftE (mapE (barcode_subset datadf) barcodes)) (\<lambda>dfs.
        bindP (emit (WriteStats dfs statsfile_b (Some barcodes))) (\<lambda>_.
        returnP statsfile_b)))
      else returnP statsfile_v)))"

section \<open>make_report\<close>

text \<open>\<^verbatim>\<open>title.replace(' ', '_')\<close>\<close>

definition replace_spaces :: "string \<Rightarrow> string" where
  "replace_spaces t = map (\<lambda>c. if c = CHR '' '' then CHR ''_'' else c) t"

text \<open>\<^verbatim>\<open>sep.join(xs)\<close>\<close>

fun str_join :: "string \<Rightarrow> string list \<Rightarrow> string" where
  "str_join sep [] = []"
| "str_join sep [x] = x"
| "str_join sep (x # y # ys) = x @ sep @ str_join sep (y # ys)"

text \<open>\<^verbatim>\<open>xs[i]\<close> for a non-negative index.\<close>

definition py_index :: "'a list \<Rightarrow> nat \<Rightarrow> error + 'a" where
  "py_index xs i = (if i < length xs then Inr (xs ! i) else Inl IndexError)"

definition toc_stats_links :: "settings \<Rightarrow> string list" where
  \<open>toc_stats_links st =
     (if filtered st then
        [''<p><strong><a href="#stats0">Summary Statistics prior to filtering</a></strong></p>'',
         ''<p><strong><a href="#stats1">Summary Statistics after filtering</a></strong></p>'']
      else
        [''<p><strong><a href="#stats0">Summary Statistics</a></strong></p>''])\<close>

definition toc_plot_link :: "plot \<Rightarrow> string" where
  \<open>toc_plot_link p =
     ''<p style="margin-left:20px"><a href="#'' @ replace_spaces (plot_title p) @ ''">'' @
     plot_title p @ ''</a></p>''\<close>

definition toc_panel :: "plot list \<Rightarrow> settings \<Rightarrow> string list" where
  \<open>toc_panel ps st =
     [''<div class="panel panelC">''] @ toc_stats_links st @
     [''<p><strong><a href="#plots">Plots</a></strong></p>''] @
     map toc_plot_link ps @ [''</div>'']\<close>

definition stats_panel :: "backend \<Rightarrow> settings \<Rightarrow> error + string list" where
  \<open>stats_panel ext st =
     (if filtered st then
        (case py_index (statsfile st) 0 of
           Inl e \<Rightarrow> Inl e
         | Inr f0 \<Rightarrow>
             (case py_index (statsfile st) 1 of
                Inl e \<Rightarrow> Inl e
              | Inr f1 \<Rightarrow>
                  Inr [''<div class="panel panelM"> <h1>NanoPlot report</h1>'',
                       ''<h2 id="stats0">Summary statistics prior to filtering</h2>'',
                       stats2html ext f0,
                       ''<h2 id="stats1">Summary statistics after filtering</h2>'',
                       stats2html ext f1]))
      else
        (case py_index (statsfile st) 0 of
           Inl e \<Rightarrow> Inl e
         | Inr f0 \<Rightarrow>
             Inr [''<div class="panel panelM"> <h1>NanoPlot report</h1>'',
                  ''<h2 id="stats0">Summary statistics</h2>'',
                  stats2html ext f0]))\<close>

definition plot_heading :: "backend \<Rightarrow> plot \<Rightarrow> string" where
  \<open>plot_heading ext p =
     ''\<newline><h3 id="'' @ replace_spaces (plot_title p) @ ''">'' @ plot_title p @
     ''</h3>\<newline>'' @ encode ext p\<close>

definition plots_panel :: "backend \<Rightarrow> plot list \<Rightarrow> string list" where
  \<open>plots_panel ext ps =
     [''<h2 id="plots">Plots</h2>''] @
     concat (map (\<lambda>p. [plot_heading ext p,
                         ''\<newline><br>\<newline><br>\<newline><br>\<newline><br>'']) ps)\<close>

definition html_content :: "backend \<Rightarrow> plot list \<Rightarrow> settings \<Rightarrow> error + string list" where
  "html_content ext ps st =
     (case stats_panel ext st of
        Inl e \<Rightarrow> Inl e
      | Inr sp \<Rightarrow> Inr ([''<body>''] @ toc_panel ps st @ sp @ plots_panel ext ps))"

definition make_report :: "backend \<Rightarrow> plot list \<Rightarrow> settings \<Rightarrow> string prog" where
  "make_report ext ps st =
     bindP (emit (LogInfo ''Writing html report.'')) (\<lambda>_.
     bindP (liftE (html_content ext ps st)) (\<lambda>hc.
     let html_body = str_join ''\<newline>'' hc @ ''</div></body></html>'';
         html_str = html_head ext @ html_body;
         htmlreport = path st @ ''NanoPlot-report.html'' in
     bindP (emit (WriteFile htmlreport html_str)) (\<lambda>_.
     returnP htmlreport)))"

section \<open>main\<close>

text \<open>\<^verbatim>\<open>os.path.join(a, b)\<close> on a POSIX system.\<close>

definition path_join :: "string \<Rightarrow> string \<Rightarrow> string" where
  "path_join a b =
     (if b \<noteq> [] \<and> hd b = CHR ''/'' then b
      else if a = [] \<or> last a = CHR ''/'' then a @ b
      else a @ ''/'' @ b)"

definition str_cell :: "backend \<Rightarrow> cell \<Rightarrow> string" where
  "str_cell ext c = (case c of CStr s \<Rightarrow> s | _ \<Rightarrow> repr_cell ext c)"

text \<open>
  One iteration of the loop over the barcodes. Adding a label that is not a string to the
  prefix raises TypeError.
\<close>

definition barcode_step ::
  "backend \<Rightarrow> dataframe \<Rightarrow> cell \<Rightarrow> settings \<Rightarrow> plot list \<Rightarrow> (settings \<times> plot list) prog" where
  \<open>barcode_step ext datadf barc st ps =
     bindP (emit (LogInfo (''Processing '' @ str_cell ext barc))) (\<lambda>_.
     (case barc of
        CStr b \<Rightarrow>
          (let st1 = st\<lparr>path := path_join (outdir st) (prefix st @ b @ ''_'')\<rparr> in
           bindP (liftE (barcode_subset datadf barc)) (\<lambda>dfbarc.
           if df_len dfbarc > 5 then
             (let st2 = st1\<lparr>title := Some b\<rparr> in
              bindP (make_plots ext dfbarc st2) (\<lambda>new.
              returnP (st2, ps @ new)))
           else
             bindP (emit (StderrWrite
                      (''Found barcode '' @ b @ '' less than 5x, ignoring...\<newline>''))) (\<lambda>_.
             bindP (emit (LogInfo
                      (''Found barcode '' @ b @ '' less than 5 times, ignoring''))) (\<lambda>_.
             returnP (st1, ps)))))
      | _ \<Rightarrow> raiseP TypeError))\<close>

fun barcode_loop ::
  "backend \<Rightarrow> dataframe \<Rightarrow> cell list \<Rightarrow> settings \<Rightarrow> plot list \<Rightarrow> (settings \<times> plot list) prog" where
  "barcode_loop ext datadf [] st ps = returnP (st, ps)"
| "barcode_loop ext datadf (barc # rest) st ps =
     bindP (barcode_step ext datadf barc st ps) (\<lambda>r.
     barcode_loop ext datadf rest (fst r) (snd r))"

text \<open>The statistics before and after filtering (the two calls of make_stats in main).\<close>

definition main_stats :: "backend \<Rightarrow> dataframe \<Rightarrow> settings \<Rightarrow> (dataframe \<times> settings) prog" where
  "main_stats ext datadf st =
     bindP (make_stats datadf st []) (\<lambda>sf.
     let st1 = st\<lparr>statsfile := [sf]\<rparr> in
     (case filter_and_transform_data ext datadf st1 of
        (datadf1, flt, lp, lb) \<Rightarrow>
          (let st2 = st1\<lparr>filtered := flt, lengths_pointer := lp, logBool := lb\<rparr> in
           if filtered st2 then
             bindP (make_stats datadf1 st2 ''_post_filtering'') (\<lambda>sf2.
             returnP (datadf1, st2\<lparr>statsfile := statsfile st2 @ [sf2]\<rparr>))
           else returnP (datadf1, st2))))"

text \<open>The plots, per barcode or for the whole dataset.\<close>

definition main_plots :: "backend \<Rightarrow> dataframe \<Rightarrow> settings \<Rightarrow> (settings \<times> plot list) prog" where
  "main_plots ext datadf st =
     (if barcoded st then
        bindP (liftE (df_getitem datadf ''barcode'')) (\<lambda>bc.
        barcode_loop ext datadf (unique bc) st [])
      else
        bindP (make_plots ext datadf st) (\<lambda>ps. returnP (st, ps)))"

text \<open>
  The body of the try block. The dataset that \<^verbatim>\<open>pickle.load\<close> or \<^verbatim>\<open>get_input\<close>
  delivers, or the exception it raises, is the parameter \<open>ingest\<close>.
\<close>

definition main_body :: "backend \<Rightarrow> settings \<Rightarrow> error + dataframe \<Rightarrow> unit prog" where
  "main_body ext args ingest =
     bindP (emit (MakeOutputDir (outdir args))) (\<lambda>_.
     bindP (emit InitLogs) (\<lambda>_.
     let st0 = args\<lparr>format := check_valid_format ext (format args)\<rparr>;
         st = st0\<lparr>path := path_join (outdir st0) (prefix st0)\<rparr> in
     bindP (liftE ingest) (\<lambda>datadf.
     bindP (if store st then emit (PickleDump datadf (path st @ ''NanoPlot-data.pickle''))
            else returnP ()) (\<lambda>_.
     bindP (if raw st then emit (ToCsv datadf ''NanoPlot-data.tsv.gz'')
            else returnP ()) (\<lambda>_.
     bindP (main_stats ext datadf st) (\<lambda>r1.
     bindP (main_plots ext (fst r1) (snd r1)) (\<lambda>r2.
     bindP (make_report ext (snd r2) (fst r2)) (\<lambda>_.
     emit (LogInfo ''Finished!'')))))))))"

definition crash_message :: "string list" where
  \<open>crash_message =
     [''\<newline>\<newline>\<newline>If you read this then NanoPlot has crashed :-('',
      ''Please try updating NanoPlot and see if that helps...\<newline>'',
      ''If not, please report this issue at https://github.com/wdecoster/NanoPlot/issues'',
      ''If you could include the log file that would be really helpful.'',
      ''Thanks!\<newline>\<newline>\<newline>'']\<close>

text \<open>The try block with its handler: log the error, print the message, raise again.\<close>

definition main :: "backend \<Rightarrow> settings \<Rightarrow> error + dataframe \<Rightarrow> unit prog" where
  "main ext args ingest =
     (case snd (main_body ext args ingest) of
        Inl e \<Rightarrow>
          (fst (main_body ext args ingest) @ [LogError e] @ map Print crash_message, Inl e)
      | Inr u \<Rightarrow> (fst (main_body ext args ingest), Inr u))"

section \<open>Observations on a run\<close>

definition render_calls :: "event list \<Rightarrow> call list" where
  "render_calls evs = concat (map (\<lambda>ev. case ev of Render c \<Rightarrow> [c] | _ \<Rightarrow> []) evs)"

definition stderr_writes :: "event list \<Rightarrow> string list" where
  "stderr_writes evs = concat (map (\<lambda>ev. case ev of StderrWrite s \<Rightarrow> [s] | _ \<Rightarrow> []) evs)"

definition stdout_lines :: "event list \<Rightarrow> string list" where
  "stdout_lines evs = concat (map (\<lambda>ev. case ev of Print s \<Rightarrow> [s] | _ \<Rightarrow> []) evs)"

definition log_infos :: "event list \<Rightarrow> string list" where
  "log_infos evs = concat (map (\<lambda>ev. case ev of LogInfo s \<Rightarrow> [s] | _ \<Rightarrow> []) evs)"

definition log_errors :: "event list \<Rightarrow> error list" where
  "log_errors evs = concat (map (\<lambda>ev. case ev of LogError e \<Rightarrow> [e] | _ \<Rightarrow> []) evs)"

text \<open>The calls of write_stats: the datasets, the output file and the labels given, if any.\<close>

definition stats_writes :: "event list \<Rightarrow> (dataframe list \<times> string \<times> cell list option) list" where
  "stats_writes evs =
     concat (map (\<lambda>ev. case ev of WriteStats ds f ns \<Rightarrow> [(ds, f, ns)] | _ \<Rightarrow> []) evs)"


definition files_written :: "event list \<Rightarrow> string list" where
  "files_written evs = concat (map (\<lambda>ev. case ev of WriteFile f c \<Rightarrow> [f] | _ \<Rightarrow> []) evs)"

text \<open>
  The plot families of the specification, in its fixed order, the columns each one
  requires beyond the base columns, and the family a call of the backend belongs to.
\<close>

datatype family =
    ReadLength
  | LengthVsQuality
  | ActivityMap
  | TimeSeries
  | AlignedVsSequenced
  | MapQVsBaseQuality
  | ReadLengthVsMapQ
  | PercentIdentityVsBaseQuality
  | AlignedLengthVsPercentIdentity

definition family_order :: "family list" where
  "family_order =
     [ReadLength, LengthVsQuality, ActivityMap, TimeSeries, AlignedVsSequenced,
      MapQVsBaseQuality, ReadLengthVsMapQ, PercentIdentityVsBaseQuality,
      AlignedLengthVsPercentIdentity]"

fun required_columns :: "family \<Rightarrow> string list" where
  "required_columns ReadLength = []"
| "required_columns LengthVsQuality = [''quals'']"
| "required_columns ActivityMap = [''channelIDs'']"
| "required_columns TimeSeries = [''start_time'']"
| "required_columns AlignedVsSequenced = [''aligned_lengths'', ''lengths'']"
| "required_columns MapQVsBaseQuality = [''mapQ'', ''quals'']"
| "required_columns ReadLengthVsMapQ = [''mapQ'', ''quals'']"
| "required_columns PercentIdentityVsBaseQuality = [''percentIdentity'', ''aligned_quals'']"
| "required_columns AlignedLengthVsPercentIdentity = [''percentIdentity'']"

definition families_present :: "dataframe \<Rightarrow> family list" where
  "families_present d =
     filter (\<lambda>f. set (required_columns f) \<subseteq> set (columns d)) family_order"

definition scatter_family :: "string list \<Rightarrow> family option" where
  "scatter_family ns =
     (if ns = [''Read lengths'', ''Average read quality''] then Some LengthVsQuality
      else if ns = [''Aligned read lengths'', ''Sequenced read length'']
        then Some AlignedVsSequenced
      else if ns = [''Read mapping quality'', ''Average basecall quality'']
        then Some MapQVsBaseQuality
      else if ns = [''Read length'', ''Read mapping quality''] then Some ReadLengthVsMapQ
      else if ns = [''Percent identity'', ''Average Base Quality'']
        then Some PercentIdentityVsBaseQuality
      else if ns = [''Aligned read length'', ''Percent identity'']
        then Some AlignedLengthVsPercentIdentity
      else None)"

fun call_family :: "call \<Rightarrow> family option" where
  "call_family (Length_plots a) = Some ReadLength"
| "call_family (Scatter a) = scatter_family (sc_names a)"
| "call_family (Spatial_heatmap a) = Some ActivityMap"
| "call_family (Time_plots a) = Some TimeSeries"

text \<open>The data arrays that a call hands to the backend.\<close>

fun call_arrays :: "call \<Rightarrow> cell list list" where
  "call_arrays (Length_plots a) = [lp_array a]"
| "call_arrays (Scatter a) = [sc_x a, sc_y a]"
| "call_arrays (Spatial_heatmap a) = [hm_array a]"
| "call_arrays (Time_plots a) = []"

text \<open>A column over the rows that pass the length filter, and over all rows.\<close>

definition passing_rows :: "dataframe \<Rightarrow> row list" where
  "passing_rows d = filter (\<lambda>r. cell_of r ''length_filter'' = CBool True) (rows d)"

definition column_over :: "row list \<Rightarrow> string \<Rightarrow> cell list" where
  "column_over rs c = map (\<lambda>r. cell_of r c) rs"

text \<open>
  The rows of a barcode label (a missing label compares unequal to every cell), and the
  sub-datasets of all distinct labels in order of first occurrence.
\<close>

definition label_rows :: "dataframe \<Rightarrow> cell \<Rightarrow> row list" where
  "label_rows d b = filter (\<lambda>r. cell_of r ''barcode'' = b \<and> b \<noteq> CNaN) (rows d)"

definition label_frames :: "dataframe \<Rightarrow> dataframe list" where
  "label_frames d =
     map (\<lambda>b. d\<lparr>rows := label_rows d b\<rparr>)
       (unique (map (\<lambda>r. cell_of r ''barcode'') (rows d)))"

text \<open>The filtering stage may add columns to the dataset and drop rows, but drops no column.\<close>

definition filter_keeps_columns :: "backend \<Rightarrow> bool" where
  "filter_keeps_columns ext =
     (\<forall>d st. set (columns d) \<subseteq> set (columns (fst (filter_and_transform_data ext d st))))"

text \<open>
  The file that the first call of make_stats returns, and what the filtering stage makes
  of the dataset and the settings that main hands to it.
\<close>

definition pre_statsfile :: "settings \<Rightarrow> string" where
  "pre_statsfile st =
     (if barcoded st then path st @ ''NanoStats_barcoded.txt'' else path st @ ''NanoStats.txt'')"

definition filter_outcome :: "backend \<Rightarrow> dataframe \<Rightarrow> settings \<Rightarrow> dataframe \<times> bool \<times> string \<times> bool" where
  "filter_outcome ext d st = filter_and_transform_data ext d (st\<lparr>statsfile := [pre_statsfile st]\<rparr>)"

definition filtered_data :: "backend \<Rightarrow> dataframe \<Rightarrow> settings \<Rightarrow> dataframe" where
  "filtered_data ext d st = fst (filter_outcome ext d st)"

definition filtered_flag :: "backend \<Rightarrow> dataframe \<Rightarrow> settings \<Rightarrow> bool" where
  "filtered_flag ext d st = fst (snd (filter_outcome ext d st))"

text \<open>The settings after the statistics and the filtering stage.\<close>

definition settings_after_stats :: "backend \<Rightarrow> dataframe \<Rightarrow> settings \<Rightarrow> settings" where
  "settings_after_stats ext d st =
     st\<lparr>statsfile :=
          [pre_statsfile st] @
          (if filtered_flag ext d st
           then [if barcoded st then path st @ ''NanoStats_barcoded.txt''
                 else path st @ ''NanoStats_post_filtering.txt'']
           else []),
        filtered := filtered_flag ext d st,
        lengths_pointer := fst (snd (snd (filter_outcome ext d st))),
        logBool := snd (snd (snd (filter_outcome ext d st)))\<rparr>"

text \<open>The settings as main has them when the dataset arrives.\<close>

definition startup_settings :: "backend \<Rightarrow> settings \<Rightarrow> settings" where
  "startup_settings ext args =
     args\<lparr>format := check_valid_format ext (format args),
          path := path_join (outdir args) (prefix args)\<rparr>"

text \<open>The calls of write_stats that break the data down by label.\<close>

definition breakdown_writes :: "event list \<Rightarrow> (dataframe list \<times> string \<times> cell list option) list" where
  "breakdown_writes evs = filter (\<lambda>w. snd (snd w) \<noteq> None) (stats_writes evs)"


text \<open>A computation all of whose events satisfy a predicate.\<close>

definition only_events :: "(event \<Rightarrow> bool) \<Rightarrow> 'a prog \<Rightarrow> bool" where
  "only_events P m = (\<forall>ev \<in> set (fst m). P ev)"

text \<open>The events of plotting: log records, backend calls and the plot settings.\<close>

fun plot_event :: "event \<Rightarrow> bool" where
  "plot_event (LogInfo s) = True"
| "plot_event (Render c) = True"
| "plot_event (PlotSettings a b) = True"
| "plot_event ev = False"

text \<open>The events of the loop over the barcodes: those of plotting, and notices.\<close>

fun loop_event :: "event \<Rightarrow> bool" where
  "loop_event (StderrWrite s) = True"
| "loop_event ev = plot_event ev"

text \<open>Events other than printing, logging an error and writing a file.\<close>

fun silent_event :: "event \<Rightarrow> bool" where
  "silent_event (Print s) = False"
| "silent_event (LogError e) = False"
| "silent_event (WriteFile f c) = False"
| "silent_event ev = True"

text \<open>Events other than printing and logging an error.\<close>

fun body_event :: "event \<Rightarrow> bool" where
  "body_event (Print s) = False"
| "body_event (LogError e) = False"
| "body_event ev = True"

text \<open>
  The settings that the loop over the barcodes hands to make_plots for a label, and that
  call of make_plots.
\<close>

definition label_settings :: "settings \<Rightarrow> string \<Rightarrow> settings" where
  "label_settings st b =
     st\<lparr>path := path_join (outdir st) (prefix st @ b @ ''_''), title := Some b\<rparr>"

definition label_plots :: "backend \<Rightarrow> dataframe \<Rightarrow> settings \<Rightarrow> cell \<Rightarrow> plot list prog" where
  "label_plots ext d st v =
     make_plots ext (d\<lparr>rows := label_rows d v\<rparr>) (label_settings st (str_cell ext v))"

text \<open>The labels of a dataset in order of first occurrence, and whether all are strings.\<close>

definition barcode_labels :: "dataframe \<Rightarrow> cell list" where
  "barcode_labels d = unique (column_over (rows d) ''barcode'')"

definition string_labels :: "dataframe \<Rightarrow> bool" where
  "string_labels d = (\<forall>v \<in> set (column_over (rows d) ''barcode''). \<exists>b. v = CStr b)"

text \<open>
  The labels for which plots are made and those that are passed over, by the number of
  their rows, and what the specification expects of the loop for one label: the log
  record, and then either the events of make_plots for the label or the two notices.
\<close>

definition retained_labels :: "dataframe \<Rightarrow> cell list" where
  "retained_labels d = filter (\<lambda>v. 5 < length (label_rows d v)) (barcode_labels d)"

definition skipped_labels :: "dataframe \<Rightarrow> cell list" where
  "skipped_labels d = filter (\<lambda>v. \<not> 5 < length (label_rows d v)) (barcode_labels d)"

definition stderr_notice :: "string \<Rightarrow> string" where
  "stderr_notice b = ''Found barcode '' @ b @ '' less than 5x, ignoring...\<newline>''"

definition log_notice :: "string \<Rightarrow> string" where
  "log_notice b = ''Found barcode '' @ b @ '' less than 5 times, ignoring''"

definition label_events :: "backend \<Rightarrow> dataframe \<Rightarrow> settings \<Rightarrow> cell \<Rightarrow> event list" where
  "label_events ext d st v =
     LogInfo (''Processing '' @ str_cell ext v) #
     (if 5 < length (label_rows d v) then fst (label_plots ext d st v)
      else [StderrWrite (stderr_notice (str_cell ext v)), LogInfo (log_notice (str_cell ext v))])"

text \<open>The anchor of a plot in the report.\<close>

definition plot_anchor :: "plot \<Rightarrow> string" where
  "plot_anchor p = replace_spaces (plot_title p)"

text \<open>The family of a call together with the data it is given.\<close>

definition call_summary :: "call \<Rightarrow> family option \<times> cell list list" where
  "call_summary c = (call_family c, call_arrays c)"

text \<open>The plots that the backend returned for the calls among some events, in order.\<close>

definition rendered :: "backend \<Rightarrow> event list \<Rightarrow> plot list" where
  "rendered ext evs = concat (map (render ext) (render_calls evs))"

text \<open>
  The calls that the column tests of make_plots select, as families with their data:
  the columns over the rows that pass the length filter, or over all rows.
\<close>

definition expected_summary :: "dataframe \<Rightarrow> settings \<Rightarrow> (family option \<times> cell list list) list" where
  "expected_summary d st =
     [(Some ReadLength, [column_over (passing_rows d) ''lengths''])] @
     (if ''quals'' \<in> set (columns d)
      then [(Some LengthVsQuality,
             [column_over (passing_rows d) (lengths_pointer st),
              column_over (passing_rows d) ''quals''])]
      else []) @
     (if ''channelIDs'' \<in> set (columns d)
      then [(Some ActivityMap, [column_over (rows d) ''channelIDs''])]
      else []) @
     (if ''start_time'' \<in> set (columns d) then [(Some TimeSeries, [])] else []) @
     (if ''aligned_lengths'' \<in> set (columns d) \<and> ''lengths'' \<in> set (columns d)
      then [(Some AlignedVsSequenced,
             [column_over (passing_rows d) ''aligned_lengths'',
              column_over (passing_rows d) ''lengths''])]
      else []) @
     (if ''mapQ'' \<in> set (columns d) \<and> ''quals'' \<in> set (columns d)
      then [(Some MapQVsBaseQuality,
             [column_over (rows d) ''mapQ'', column_over (rows d) ''quals'']),
            (Some ReadLengthVsMapQ,
             [column_over (passing_rows d) (lengths_pointer st),
              column_over (passing_rows d) ''mapQ''])]
      else []) @
     (if ''percentIdentity'' \<in> set (columns d)
      then (if ''aligned_quals'' \<in> set (columns d)
            then [(Some PercentIdentityVsBaseQuality,
                   [column_over (rows d) ''percentIdentity'',
                    column_over (rows d) ''aligned_quals''])]
            else []) @
           [(Some AlignedLengthVsPercentIdentity,
             [column_over (passing_rows d) (lengths_pointer st),
              column_over (passing_rows d) ''percentIdentity''])]
      else [])"

section \<open>Example inputs\<close>

text \<open>A backend that returns one plot for each call, and a filtering stage that filters nothing.\<close>

definition demo_backend :: backend where
  "demo_backend =
     \<lparr>check_valid_color = (\<lambda>c. c), check_valid_format = (\<lambda>f. f), np_sort = (\<lambda>xs. xs),
      get_N50 = (\<lambda>xs. CNaN), np_percentile = (\<lambda>xs n. CNaN),
      render = (\<lambda>c. case call_family c of
                        None \<Rightarrow> []
                      | Some f \<Rightarrow> [\<lparr>plot_title = ''plot'', plot_path = ''plot.png''\<rparr>]),
      encode = (\<lambda>p. plot_path p), stats2html = (\<lambda>f. f), html_head = ''<html>'',
      repr_cell = (\<lambda>c. ''?''),
      filter_and_transform_data = (\<lambda>d st. (d, False, ''lengths'', False))\<rparr>"

text \<open>The settings of a run with the default options.\<close>

definition demo_settings :: settings where
  "demo_settings =
     \<lparr>outdir = ''.'', prefix = [], store = False, raw = False, path = ''./'',
      title = None, format = ''png'', color = ''#4CB391'', plots = [''kde'', ''dot''],
      N50 = False, font_scale = 1, dpi = 100, barcoded = False, logBool = False,
      lengths_pointer = ''lengths'', filtered = False, statsfile = []\<rparr>"

text \<open>Two reads with percent identity and no aligned qualities; the second fails the length filter.\<close>

definition reads_identity :: dataframe where
  "reads_identity =
     \<lparr>columns = [''lengths'', ''length_filter'', ''percentIdentity''],
      rows = [[(''lengths'', CInt 100), (''length_filter'', CBool True),
               (''percentIdentity'', CInt 90)],
              [(''lengths'', CInt 7), (''length_filter'', CBool False),
               (''percentIdentity'', CInt 80)]]\<rparr>"

text \<open>Two reads with channel numbers; the second fails the length filter.\<close>

definition reads_channels :: dataframe where
  "reads_channels =
     \<lparr>columns = [''lengths'', ''length_filter'', ''channelIDs''],
      rows = [[(''lengths'', CInt 100), (''length_filter'', CBool True),
               (''channelIDs'', CInt 1)],
              [(''lengths'', CInt 7), (''length_filter'', CBool False),
               (''channelIDs'', CInt 2)]]\<rparr>"

text \<open>One read with the same columns as \<open>reads_identity\<close>, listed in another order.\<close>

definition reads_identity_shuffled :: dataframe where
  "reads_identity_shuffled =
     \<lparr>columns = [''percentIdentity'', ''length_filter'', ''lengths''],
      rows = [[(''percentIdentity'', CInt 99), (''length_filter'', CBool True),
               (''lengths'', CInt 4000)]]\<rparr>"

text \<open>A backend whose filtering stage reports that it filtered.\<close>

definition filtering_backend :: backend where
  "filtering_backend =
     demo_backend\<lparr>filter_and_transform_data := (\<lambda>d st. (d, True, ''lengths'', False))\<rparr>"

text \<open>Seven reads with barcodes: six of BC01 and, third in the file, one of BC02.\<close>

definition reads_barcoded :: dataframe where
  "reads_barcoded =
     \<lparr>columns = [''lengths'', ''length_filter'', ''barcode''],
      rows = [[(''lengths'', CInt 100), (''length_filter'', CBool True), (''barcode'', CStr ''BC01'')],
              [(''lengths'', CInt 200), (''length_filter'', CBool True), (''barcode'', CStr ''BC01'')],
              [(''lengths'', CInt 300), (''length_filter'', CBool True), (''barcode'', CStr ''BC02'')],
              [(''lengths'', CInt 400), (''length_filter'', CBool True), (''barcode'', CStr ''BC01'')],
              [(''lengths'', CInt 500), (''length_filter'', CBool True), (''barcode'', CStr ''BC01'')],
              [(''lengths'', CInt 600), (''length_filter'', CBool True), (''barcode'', CStr ''BC01'')],
              [(''lengths'', CInt 700), (''length_filter'', CBool True), (''barcode'', CStr ''BC01'')]]\<rparr>"

text \<open>The default settings in barcode mode.\<close>

definition barcoded_settings :: settings where
  "barcoded_settings = demo_settings\<lparr>barcoded := True\<rparr>"

text \<open>The settings of an unfiltered run when the report is made.\<close>

definition report_settings :: settings where
  "report_settings = demo_settings\<lparr>statsfile := [''./NanoStats.txt'']\<rparr>"

text \<open>
  The read length histograms of two barcodes, which have the same title, and a plot with
  another title.
\<close>

definition histogram_bc01 :: plot where
  "histogram_bc01 = \<lparr>plot_title = ''Histogram of read lengths'', plot_path = ''./BC01_Histogram.png''\<rparr>"

definition histogram_bc02 :: plot where
  "histogram_bc02 = \<lparr>plot_title = ''Histogram of read lengths'', plot_path = ''./BC02_Histogram.png''\<rparr>"

definition yield_plot :: plot where
  "yield_plot = \<lparr>plot_title = ''Yield by length'', plot_path = ''./Yield.png''\<rparr>"

section \<open>Computations: basic facts\<close>

lemma fst_bindP: "fst (bindP m f) = fst m @ (case snd m of Inl e \<Rightarrow> [] | Inr x \<Rightarrow> fst (f x))"
  by (simp add: bindP_def split: sum.splits)

lemma snd_bindP: "snd (bindP m f) = (case snd m of Inl e \<Rightarrow> Inl e | Inr x \<Rightarrow> snd (f x))"
  by (simp add: bindP_def split: sum.splits)

lemma bindP_emit: "bindP (emit ev) f = (ev # fst (f ()), snd (f ()))"
  by (simp add: bindP_def emit_def)

lemma bindP_returnP: "bindP (returnP x) f = f x"
  by (simp add: bindP_def returnP_def)

lemma bindP_liftE_Inr: "bindP (liftE (Inr x)) f = f x"
  by (simp add: bindP_def liftE_def)

lemma bindP_liftE_Inl: "bindP (liftE (Inl e)) f = ([], Inl e)"
  by (simp add: bindP_def liftE_def)

lemma bindP_nanoplotter:
  "bindP (nanoplotter ext c) f = (Render c # fst (f (render ext c)), snd (f (render ext c)))"
  by (simp add: bindP_def nanoplotter_def)

lemma bindP_Pair_Inr: "bindP (evs, Inr x) f = (evs @ fst (f x), snd (f x))"
  by (simp add: bindP_def)

lemma bindP_Pair_Inl: "bindP (evs, Inl e) f = (evs, Inl e)"
  by (simp add: bindP_def)

lemmas prog_simps = bindP_emit bindP_returnP bindP_liftE_Inr bindP_liftE_Inl bindP_nanoplotter
  bindP_Pair_Inr bindP_Pair_Inl

lemma render_calls_append: "render_calls (xs @ ys) = render_calls xs @ render_calls ys"
  by (simp add: render_calls_def)

lemma render_calls_Cons:
  "render_calls (ev # evs) = (case ev of Render c \<Rightarrow> [c] | _ \<Rightarrow> []) @ render_calls evs"
  by (simp add: render_calls_def)

lemma render_calls_Nil: "render_calls [] = []"
  by (simp add: render_calls_def)

section \<open>make_plots: the calls it makes\<close>

lemma mask_filter: "map snd (filter fst (zip (map P xs) xs)) = filter P xs"
  by (induction xs) auto

lemma filtered_column_ok:
  assumes "''length_filter'' \<in> set (columns d)" and "c \<in> set (columns d)"
  shows "filtered_column d c = Inr (column_over (passing_rows d) c)"
  using assms
  by (simp add: filtered_column_def df_getitem_def df_mask_def as_mask_def comp_def
      mask_filter passing_rows_def column_over_def)

lemma df_getitem_ok:
  "c \<in> set (columns d) \<Longrightarrow> df_getitem d c = Inr (column_over (rows d) c)"
  by (simp add: df_getitem_def column_over_def)

lemma rendered_append: "rendered ext (xs @ ys) = rendered ext xs @ rendered ext ys"
  by (simp add: rendered_def render_calls_append)

lemmas step_simps = df_contains_def filtered_column_ok df_getitem_ok prog_simps returnP_def
  render_calls_Cons render_calls_Nil render_calls_append call_summary_def scatter_family_def rendered_def Let_def

lemma plots_length_res:
  assumes "''length_filter'' \<in> set (columns d)" and "''lengths'' \<in> set (columns d)"
  shows "snd (plots_length ext d st cv n50) = Inr (rendered ext (fst (plots_length ext d st cv n50)))"
  using assms by (simp add: plots_length_def step_simps)

lemma plots_length_calls:
  assumes "''length_filter'' \<in> set (columns d)" and "''lengths'' \<in> set (columns d)"
  shows "map call_summary (render_calls (fst (plots_length ext d st cv n50))) =
     [(Some ReadLength, [column_over (passing_rows d) ''lengths''])]"
  using assms by (simp add: plots_length_def step_simps)

lemma plots_quals_res:
  assumes "''length_filter'' \<in> set (columns d)" and "lengths_pointer st \<in> set (columns d)"
  shows "snd (plots_quals ext d st cv pd pls) = Inr (rendered ext (fst (plots_quals ext d st cv pd pls)))"
  using assms by (simp add: plots_quals_def step_simps)

lemma plots_quals_calls:
  assumes "''length_filter'' \<in> set (columns d)" and "lengths_pointer st \<in> set (columns d)"
  shows "map call_summary (render_calls (fst (plots_quals ext d st cv pd pls))) =
     (if ''quals'' \<in> set (columns d)
      then [(Some LengthVsQuality,
             [column_over (passing_rows d) (lengths_pointer st),
              column_over (passing_rows d) ''quals''])]
      else [])"
  using assms by (simp add: plots_quals_def step_simps)

lemma plots_channels_res:
  "snd (plots_channels ext d st) = Inr (rendered ext (fst (plots_channels ext d st)))"
  by (simp add: plots_channels_def step_simps)

lemma plots_channels_calls:
  "map call_summary (render_calls (fst (plots_channels ext d st))) =
     (if ''channelIDs'' \<in> set (columns d)
      then [(Some ActivityMap, [column_over (rows d) ''channelIDs''])]
      else [])"
  by (simp add: plots_channels_def step_simps)

lemma plots_time_res:
  "snd (plots_time ext d st cv pls) = Inr (rendered ext (fst (plots_time ext d st cv pls)))"
  by (simp add: plots_time_def step_simps)

lemma plots_time_calls:
  "map call_summary (render_calls (fst (plots_time ext d st cv pls))) =
     (if ''start_time'' \<in> set (columns d) then [(Some TimeSeries, [])] else [])"
  by (simp add: plots_time_def step_simps)

lemma plots_aligned_res:
  assumes "''length_filter'' \<in> set (columns d)"
  shows "snd (plots_aligned ext d st cv pd pls) = Inr (rendered ext (fst (plots_aligned ext d st cv pd pls)))"
  using assms by (simp add: plots_aligned_def step_simps)

lemma plots_aligned_calls:
  assumes "''length_filter'' \<in> set (columns d)"
  shows "map call_summary (render_calls (fst (plots_aligned ext d st cv pd pls))) =
     (if ''aligned_lengths'' \<in> set (columns d) \<and> ''lengths'' \<in> set (columns d)
      then [(Some AlignedVsSequenced,
             [column_over (passing_rows d) ''aligned_lengths'',
              column_over (passing_rows d) ''lengths''])]
      else [])"
  using assms by (simp add: plots_aligned_def step_simps)

lemma plots_mapq_res:
  assumes "''length_filter'' \<in> set (columns d)" and "lengths_pointer st \<in> set (columns d)"
  shows "snd (plots_mapq ext d st cv pd pls) = Inr (rendered ext (fst (plots_mapq ext d st cv pd pls)))"
  using assms by (simp add: plots_mapq_def step_simps)

lemma plots_mapq_calls:
  assumes "''length_filter'' \<in> set (columns d)" and "lengths_pointer st \<in> set (columns d)"
  shows "map call_summary (render_calls (fst (plots_mapq ext d st cv pd pls))) =
     (if ''mapQ'' \<in> set (columns d) \<and> ''quals'' \<in> set (columns d)
      then [(Some MapQVsBaseQuality,
             [column_over (rows d) ''mapQ'', column_over (rows d) ''quals'']),
            (Some ReadLengthVsMapQ,
             [column_over (passing_rows d) (lengths_pointer st),
              column_over (passing_rows d) ''mapQ''])]
      else [])"
  using assms by (simp add: plots_mapq_def step_simps)

lemma plots_pid_res:
  assumes "''length_filter'' \<in> set (columns d)" and "lengths_pointer st \<in> set (columns d)"
  shows "snd (plots_pid ext d st cv pd pls) = Inr (rendered ext (fst (plots_pid ext d st cv pd pls)))"
  using assms by (simp add: plots_pid_def step_simps)

lemma plots_pid_calls:
  assumes "''length_filter'' \<in> set (columns d)" and "lengths_pointer st \<in> set (columns d)"
  shows "map call_summary (render_calls (fst (plots_pid ext d st cv pd pls))) =
     (if ''percentIdentity'' \<in> set (columns d)
      then (if ''aligned_quals'' \<in> set (columns d)
            then [(Some PercentIdentityVsBaseQuality,
                   [column_over (rows d) ''percentIdentity'',
                    column_over (rows d) ''aligned_quals''])]
            else []) @
           [(Some AlignedLengthVsPercentIdentity,
             [column_over (passing_rows d) (lengths_pointer st),
              column_over (passing_rows d) ''percentIdentity''])]
      else [])"
  using assms by (simp add: plots_pid_def step_simps)

lemma rendered_Nil: "rendered ext [] = []"
  by (simp add: rendered_def render_calls_def)

lemma rendered_PlotSettings: "rendered ext (PlotSettings a b # evs) = rendered ext evs"
  by (simp add: rendered_def render_calls_def)

lemma fst_returnP: "fst (returnP x) = []"
  by (simp add: returnP_def)

lemma snd_returnP: "snd (returnP x) = Inr x"
  by (simp add: returnP_def)

lemma fst_emit: "fst (emit ev) = [ev]"
  by (simp add: emit_def)

lemma snd_emit: "snd (emit ev) = Inr ()"
  by (simp add: emit_def)

lemma n50_prog:
  assumes "''lengths'' \<in> set (columns d)"
  shows "(if b then bindP (liftE (df_getitem d ''lengths'')) (\<lambda>l. returnP (Some (g l)))
          else returnP None) =
         ([], Inr (if b then Some (g (column_over (rows d) ''lengths'')) else None))"
  using assms by (simp add: df_getitem_ok prog_simps returnP_def)

lemma make_plots_res:
  assumes "''lengths'' \<in> set (columns d)" and "''length_filter'' \<in> set (columns d)"
    and "lengths_pointer st \<in> set (columns d)"
  shows "snd (make_plots ext d st) = Inr (rendered ext (fst (make_plots ext d st)))"
  using assms
  by (simp add: make_plots_def Let_def fst_bindP snd_bindP plots_length_res plots_quals_res
      plots_channels_res plots_time_res plots_aligned_res plots_mapq_res plots_pid_res
      rendered_append rendered_Nil rendered_PlotSettings emit_def returnP_def liftE_def
      df_getitem_ok)

lemma make_plots_summary:
  assumes "''lengths'' \<in> set (columns d)" and "''length_filter'' \<in> set (columns d)"
    and "lengths_pointer st \<in> set (columns d)"
  shows "map call_summary (render_calls (fst (make_plots ext d st))) = expected_summary d st"
  using assms
  by (simp add: make_plots_def Let_def fst_bindP snd_bindP plots_length_res plots_quals_res
      plots_channels_res plots_time_res plots_aligned_res plots_mapq_res plots_pid_res
      plots_length_calls plots_quals_calls plots_channels_calls plots_time_calls
      plots_aligned_calls plots_mapq_calls plots_pid_calls
      render_calls_append render_calls_Cons render_calls_Nil fst_returnP snd_returnP
      fst_emit snd_emit n50_prog expected_summary_def
      del: if_split split del: if_split cong: if_cong)

lemma families_present_eq:
  "families_present d =
     [ReadLength] @
     (if ''quals'' \<in> set (columns d) then [LengthVsQuality] else []) @
     (if ''channelIDs'' \<in> set (columns d) then [ActivityMap] else []) @
     (if ''start_time'' \<in> set (columns d) then [TimeSeries] else []) @
     (if ''aligned_lengths'' \<in> set (columns d) \<and> ''lengths'' \<in> set (columns d)
      then [AlignedVsSequenced] else []) @
     (if ''mapQ'' \<in> set (columns d) \<and> ''quals'' \<in> set (columns d)
      then [MapQVsBaseQuality, ReadLengthVsMapQ] else []) @
     (if ''percentIdentity'' \<in> set (columns d)
      then (if ''aligned_quals'' \<in> set (columns d) then [PercentIdentityVsBaseQuality] else []) @
           [AlignedLengthVsPercentIdentity]
      else [])"
  by (simp add: families_present_def family_order_def)

lemma call_family_summary: "call_family c = fst (call_summary c)"
  by (simp add: call_summary_def)

lemma make_plots_families:
  assumes "''lengths'' \<in> set (columns d)" and "''length_filter'' \<in> set (columns d)"
    and "lengths_pointer st \<in> set (columns d)"
  shows "map call_family (render_calls (fst (make_plots ext d st))) =
         map Some (families_present d)"
proof -
  have "map call_family (render_calls (fst (make_plots ext d st))) =
        map fst (map call_summary (render_calls (fst (make_plots ext d st))))"
    by (simp add: call_family_summary comp_def)
  also have "\<dots> = map fst (expected_summary d st)"
    by (simp only: make_plots_summary [OF assms])
  also have "\<dots> = map Some (families_present d)"
    by (simp add: expected_summary_def families_present_eq)
  finally show ?thesis .
qed

lemma filter_present_family_order:
  "filter (\<lambda>f. Some f \<in> set (map Some (filter P family_order))) family_order =
   filter P family_order"
  by (rule filter_cong) auto

section \<open>make_stats and the statistics of a run\<close>

lemma stats_writes_append: "stats_writes (xs @ ys) = stats_writes xs @ stats_writes ys"
  by (simp add: stats_writes_def)

lemma stats_writes_Cons:
  "stats_writes (ev # evs) =
     (case ev of WriteStats ds f ns \<Rightarrow> [(ds, f, ns)] | _ \<Rightarrow> []) @ stats_writes evs"
  by (simp add: stats_writes_def)

lemma stats_writes_Nil: "stats_writes [] = []"
  by (simp add: stats_writes_def)

lemma series_eq_mask:
  "df_mask d (series_eq (column_over (rows d) ''barcode'') b) = d\<lparr>rows := label_rows d b\<rparr>"
proof -
  have "series_eq (column_over (rows d) ''barcode'') b =
        map (\<lambda>r. cell_of r ''barcode'' = b \<and> b \<noteq> CNaN) (rows d)"
    by (auto simp add: series_eq_def column_over_def)
  then show ?thesis
    by (simp add: df_mask_def mask_filter label_rows_def)
qed

lemma barcode_subset_ok:
  "''barcode'' \<in> set (columns d) \<Longrightarrow> barcode_subset d b = Inr (d\<lparr>rows := label_rows d b\<rparr>)"
  by (simp add: barcode_subset_def df_getitem_ok series_eq_mask)

lemma mapE_barcode_subset:
  "''barcode'' \<in> set (columns d) \<Longrightarrow>
   mapE (barcode_subset d) bs = Inr (map (\<lambda>b. d\<lparr>rows := label_rows d b\<rparr>) bs)"
  by (induction bs) (simp_all add: barcode_subset_ok)

lemma make_stats_res:
  assumes "barcoded st \<longrightarrow> ''barcode'' \<in> set (columns d)"
  shows "snd (make_stats d st sfx) =
     Inr (if barcoded st then path st @ ''NanoStats_barcoded.txt''
          else path st @ ''NanoStats'' @ sfx @ ''.txt'')"
  using assms
  by (simp add: make_stats_def Let_def prog_simps df_getitem_ok mapE_barcode_subset returnP_def)


lemma make_stats_writes:
  assumes "barcoded st \<longrightarrow> ''barcode'' \<in> set (columns d)"
  shows "stats_writes (fst (make_stats d st sfx)) =
     ([d], path st @ ''NanoStats'' @ sfx @ ''.txt'', None) #
     (if barcoded st
      then [(label_frames d, path st @ ''NanoStats_barcoded.txt'',
             Some (unique (column_over (rows d) ''barcode'')))]
      else [])"
  using assms
  by (simp add: make_stats_def Let_def prog_simps df_getitem_ok mapE_barcode_subset returnP_def
      stats_writes_Cons stats_writes_Nil label_frames_def column_over_def)

lemma filter_keeps_barcode:
  assumes "filter_keeps_columns ext" and "c \<in> set (columns d)"
  shows "c \<in> set (columns (filtered_data ext d st))"
  using assms unfolding filter_keeps_columns_def filtered_data_def filter_outcome_def by blast

lemma make_stats_pre:
  assumes "barcoded st \<longrightarrow> ''barcode'' \<in> set (columns d)"
  shows "snd (make_stats d st []) = Inr (pre_statsfile st)"
  using assms by (simp add: make_stats_res pre_statsfile_def)

lemma make_stats_post:
  assumes "barcoded st \<longrightarrow> ''barcode'' \<in> set (columns d)"
  shows "snd (make_stats d st ''_post_filtering'') =
     Inr (if barcoded st then path st @ ''NanoStats_barcoded.txt''
          else path st @ ''NanoStats_post_filtering.txt'')"
  using assms by (simp add: make_stats_res)

lemma main_stats_res:
  assumes "barcoded st \<longrightarrow> ''barcode'' \<in> set (columns d)" and "filter_keeps_columns ext"
  shows "snd (main_stats ext d st) = Inr (filtered_data ext d st, settings_after_stats ext d st)"
proof -
  have b: "barcoded st \<longrightarrow> ''barcode'' \<in> set (columns (filtered_data ext d st))"
    using assms filter_keeps_barcode by blast
  obtain d1 flt lp lb where fo: "filter_outcome ext d st = (d1, flt, lp, lb)"
    by (cases "filter_outcome ext d st") auto
  have fo': "filter_and_transform_data ext d (st\<lparr>statsfile := [pre_statsfile st]\<rparr>) =
      (d1, flt, lp, lb)"
    using fo by (simp add: filter_outcome_def)
  have b1: "barcoded st \<longrightarrow> ''barcode'' \<in> set (columns d1)"
    using b fo by (simp add: filtered_data_def)
  show ?thesis
    using assms(1) b1
    by (simp add: main_stats_def Let_def snd_bindP fst_bindP make_stats_pre make_stats_post fo'
        snd_returnP filtered_data_def filtered_flag_def settings_after_stats_def fo)
qed

lemma main_stats_writes:
  assumes "barcoded st \<longrightarrow> ''barcode'' \<in> set (columns d)" and "filter_keeps_columns ext"
  shows "stats_writes (fst (main_stats ext d st)) =
     stats_writes (fst (make_stats d st [])) @
     (if filtered_flag ext d st
      then stats_writes (fst (make_stats (filtered_data ext d st) st ''_post_filtering''))
      else [])"
proof -
  obtain d1 flt lp lb where fo: "filter_outcome ext d st = (d1, flt, lp, lb)"
    by (cases "filter_outcome ext d st") auto
  have fo': "filter_and_transform_data ext d (st\<lparr>statsfile := [pre_statsfile st]\<rparr>) =
      (d1, flt, lp, lb)"
    using fo by (simp add: filter_outcome_def)
  have same: "\<And>a b c e. make_stats d1 (st\<lparr>statsfile := a, filtered := b, lengths_pointer := c,
       logBool := e\<rparr>) ''_post_filtering'' = make_stats d1 st ''_post_filtering''"
    by (simp add: make_stats_def Let_def cong: if_cong)
  show ?thesis
    using assms(1)
    by (simp add: main_stats_def Let_def snd_bindP fst_bindP make_stats_pre fo' snd_returnP
        fst_returnP filtered_data_def filtered_flag_def fo stats_writes_append stats_writes_Nil
        same split: sum.splits)
qed

lemma demo_keeps: "filter_keeps_columns demo_backend"
  by (simp add: filter_keeps_columns_def demo_backend_def)

lemma filtering_keeps: "filter_keeps_columns filtering_backend"
  by (simp add: filter_keeps_columns_def filtering_backend_def demo_backend_def)

section \<open>Which events a stage can produce\<close>

lemma only_bind:
  "only_events P m \<Longrightarrow> (\<And>x. only_events P (f x)) \<Longrightarrow> only_events P (bindP m f)"
  by (auto simp add: only_events_def bindP_def split: sum.splits)

lemma only_emit: "P ev \<Longrightarrow> only_events P (emit ev)"
  by (simp add: only_events_def emit_def)

lemma only_returnP: "only_events P (returnP x)"
  by (simp add: only_events_def returnP_def)

lemma only_raiseP: "only_events P (raiseP e)"
  by (simp add: only_events_def raiseP_def)

lemma only_liftE: "only_events P (liftE r)"
  by (simp add: only_events_def liftE_def)

lemma only_nanoplotter: "P (Render c) \<Longrightarrow> only_events P (nanoplotter ext c)"
  by (simp add: only_events_def nanoplotter_def)

lemma only_if:
  "(b \<Longrightarrow> only_events P m) \<Longrightarrow> (\<not> b \<Longrightarrow> only_events P n) \<Longrightarrow>
   only_events P (if b then m else n)"
  by simp

lemma only_mono: "only_events P m \<Longrightarrow> (\<And>ev. P ev \<Longrightarrow> Q ev) \<Longrightarrow> only_events Q m"
  by (auto simp add: only_events_def)

lemmas only_intros = only_bind only_emit only_returnP only_raiseP only_liftE only_nanoplotter
  only_if

lemma plots_length_events: "only_events plot_event (plots_length ext d st cv n50)"
  unfolding plots_length_def by (intro only_intros) simp_all

lemma plots_quals_events: "only_events plot_event (plots_quals ext d st cv pd pls)"
  unfolding plots_quals_def by (intro only_intros) simp_all

lemma plots_channels_events: "only_events plot_event (plots_channels ext d st)"
  unfolding plots_channels_def by (intro only_intros) simp_all

lemma plots_time_events: "only_events plot_event (plots_time ext d st cv pls)"
  unfolding plots_time_def by (intro only_intros) simp_all

lemma plots_aligned_events: "only_events plot_event (plots_aligned ext d st cv pd pls)"
  unfolding plots_aligned_def by (intro only_intros) simp_all

lemma plots_mapq_events: "only_events plot_event (plots_mapq ext d st cv pd pls)"
  unfolding plots_mapq_def by (intro only_intros) simp_all

lemma plots_pid_events: "only_events plot_event (plots_pid ext d st cv pd pls)"
  unfolding plots_pid_def Let_def by (intro only_intros) simp_all

lemma make_plots_events: "only_events plot_event (make_plots ext d st)"
  unfolding make_plots_def Let_def
  by (intro only_intros plots_length_events plots_quals_events plots_channels_events
      plots_time_events plots_aligned_events plots_mapq_events plots_pid_events) simp_all

lemma barcode_step_events: "only_events loop_event (barcode_step ext d v st ps)"
proof -
  have mp: "\<And>d' st'. only_events loop_event (make_plots ext d' st')"
    by (rule only_mono [OF make_plots_events]) (case_tac ev, simp_all)
  show ?thesis
    unfolding barcode_step_def Let_def
    by (cases v) (intro only_intros mp | simp)+
qed

lemma barcode_loop_events: "only_events loop_event (barcode_loop ext d bs st ps)"
  by (induction bs arbitrary: st ps) (auto intro!: only_intros barcode_step_events)

lemma main_plots_events: "only_events loop_event (main_plots ext d st)"
proof -
  have mp: "\<And>d' st'. only_events loop_event (make_plots ext d' st')"
    by (rule only_mono [OF make_plots_events]) (case_tac ev, simp_all)
  show ?thesis
    unfolding main_plots_def by (intro only_intros mp barcode_loop_events)
qed

lemma loop_event_no_stats: "\<forall>ev \<in> set evs. loop_event ev \<Longrightarrow> stats_writes evs = []"
proof (induction evs)
  case Nil
  then show ?case by (simp add: stats_writes_Nil)
next
  case (Cons ev evs)
  then show ?case by (cases ev) (simp_all add: stats_writes_Cons)
qed

lemma main_plots_no_stats: "stats_writes (fst (main_plots ext d st)) = []"
  using main_plots_events [of ext d st] by (simp add: only_events_def loop_event_no_stats)

lemma make_report_no_stats: "stats_writes (fst (make_report ext ps st)) = []"
  by (simp add: make_report_def Let_def fst_bindP stats_writes_append stats_writes_Cons
      stats_writes_Nil fst_emit snd_emit liftE_def fst_returnP split: sum.splits)

lemma settings_self: "\<exists>p t. st = st\<lparr>path := p, title := t\<rparr>"
  by (rule exI [of _ "path st"], rule exI [of _ "title st"]) simp

lemma barcode_step_keeps:
  assumes "snd (barcode_step ext d v st ps) = Inr (st', ps')"
  shows "\<exists>p t. st' = st\<lparr>path := p, title := t\<rparr>"
proof (cases v)
  case (CStr b)
  have eq: "\<And>p. st\<lparr>path := p\<rparr> = st\<lparr>path := p, title := title st\<rparr>"
    by simp
  show ?thesis
    using assms unfolding CStr barcode_step_def Let_def
    by (auto simp add: snd_bindP snd_emit snd_returnP liftE_def
        split: sum.splits if_splits intro: eq)
qed (use assms in \<open>simp_all add: barcode_step_def snd_bindP snd_emit raiseP_def\<close>)

lemma barcode_loop_keeps:
  "snd (barcode_loop ext d bs st ps) = Inr (st', ps') \<Longrightarrow>
   \<exists>p t. st' = st\<lparr>path := p, title := t\<rparr>"
proof (induction bs arbitrary: st ps)
  case Nil
  then have "st' = st" by (simp add: returnP_def)
  then show ?case using settings_self [of st] by simp
next
  case (Cons v bs)
  from Cons.prems obtain st1 ps1 where
    s1: "snd (barcode_step ext d v st ps) = Inr (st1, ps1)" and
    s2: "snd (barcode_loop ext d bs st1 ps1) = Inr (st', ps')"
    by (auto simp add: snd_bindP split: sum.splits)
  from barcode_step_keeps [OF s1] obtain p t where a: "st1 = st\<lparr>path := p, title := t\<rparr>"
    by blast
  from Cons.IH [OF s2] obtain p' t' where b: "st' = st1\<lparr>path := p', title := t'\<rparr>"
    by blast
  have "st' = st\<lparr>path := p', title := t'\<rparr>"
    by (simp add: a b)
  then show ?case by blast
qed

lemma main_plots_keeps:
  assumes "snd (main_plots ext d st) = Inr (st', ps)"
  shows "\<exists>p t. st' = st\<lparr>path := p, title := t\<rparr>"
proof (cases "barcoded st")
  case True
  with assms show ?thesis
    by (auto simp add: main_plots_def snd_bindP liftE_def split: sum.splits
        dest: barcode_loop_keeps)
next
  case False
  with assms have "st' = st"
    by (auto simp add: main_plots_def snd_bindP snd_returnP split: sum.splits)
  then show ?thesis using settings_self [of st] by simp
qed

section \<open>The statistics files of a whole run\<close>


lemma main_keeps_stats_writes:
  "stats_writes (fst (main ext args (Inr d))) =
   stats_writes (fst (main_stats ext d (startup_settings ext args)))"
proof -
  have a: "stats_writes (fst (main_body ext args (Inr d))) =
           stats_writes (fst (main_stats ext d (startup_settings ext args)))"
    by (simp add: main_body_def Let_def startup_settings_def fst_bindP snd_bindP
        bindP_emit bindP_liftE_Inr stats_writes_Cons stats_writes_append stats_writes_Nil
        main_plots_no_stats make_report_no_stats fst_emit snd_emit fst_returnP snd_returnP
        split: sum.splits)
  show ?thesis
    by (simp add: main_def a stats_writes_append stats_writes_Cons stats_writes_Nil
        stats_writes_def [of "map Print crash_message"] comp_def split: sum.splits)
qed

lemma main_stats_all_writes:
  assumes "barcoded st \<longrightarrow> ''barcode'' \<in> set (columns d)" and "filter_keeps_columns ext"
  shows "stats_writes (fst (main_stats ext d st)) =
     ([d], path st @ ''NanoStats.txt'', None) #
     (if barcoded st
      then [(label_frames d, path st @ ''NanoStats_barcoded.txt'', Some (barcode_labels d))]
      else []) @
     (if filtered_flag ext d st
      then ([filtered_data ext d st], path st @ ''NanoStats_post_filtering.txt'', None) #
           (if barcoded st
            then [(label_frames (filtered_data ext d st), path st @ ''NanoStats_barcoded.txt'',
                   Some (barcode_labels (filtered_data ext d st)))]
            else [])
      else [])"
proof -
  have b: "barcoded st \<longrightarrow> ''barcode'' \<in> set (columns (filtered_data ext d st))"
    using assms filter_keeps_barcode by blast
  show ?thesis
    by (simp add: main_stats_writes [OF assms] make_stats_writes [OF assms(1)]
        make_stats_writes [OF b] barcode_labels_def)
qed

lemma main_breakdown_writes:
  assumes "barcoded args" and "''barcode'' \<in> set (columns d)" and "filter_keeps_columns ext"
  shows "breakdown_writes (fst (main ext args (Inr d))) =
     (label_frames d, path_join (outdir args) (prefix args) @ ''NanoStats_barcoded.txt'',
      Some (barcode_labels d)) #
     (if filtered_flag ext d (startup_settings ext args)
      then [(label_frames (filtered_data ext d (startup_settings ext args)),
             path_join (outdir args) (prefix args) @ ''NanoStats_barcoded.txt'',
             Some (barcode_labels (filtered_data ext d (startup_settings ext args))))]
      else [])"
proof -
  have b: "barcoded (startup_settings ext args) \<longrightarrow> ''barcode'' \<in> set (columns d)"
    using assms(2) by simp
  have s: "barcoded (startup_settings ext args)"
    "path (startup_settings ext args) = path_join (outdir args) (prefix args)"
    using assms(1) by (simp_all add: startup_settings_def)
  show ?thesis
    unfolding breakdown_writes_def main_keeps_stats_writes
      main_stats_all_writes [OF b assms(3)]
    by (simp add: s)
qed

lemma main_plots_unbarcoded_res:
  assumes "\<not> barcoded st" and "''lengths'' \<in> set (columns d)"
    and "''length_filter'' \<in> set (columns d)" and "lengths_pointer st \<in> set (columns d)"
  shows "snd (main_plots ext d st) = Inr (st, rendered ext (fst (make_plots ext d st)))"
  using assms(1) by (simp add: main_plots_def snd_bindP make_plots_res [OF assms(2-4)] snd_returnP)

section \<open>The loop over the barcodes\<close>

lemma barcode_step_str:
  assumes "''barcode'' \<in> set (columns d)" and "''lengths'' \<in> set (columns d)"
    and "''length_filter'' \<in> set (columns d)" and "lengths_pointer st \<in> set (columns d)"
  shows "barcode_step ext d (CStr b) (st\<lparr>path := p, title := t\<rparr>) ps =
     (label_events ext d st (CStr b),
      Inr (if 5 < length (label_rows d (CStr b))
           then (label_settings st b, ps @ rendered ext (fst (label_plots ext d st (CStr b))))
           else (st\<lparr>path := path_join (outdir st) (prefix st @ b @ ''_''), title := t\<rparr>, ps)))"
proof -
  let ?sub = "d\<lparr>rows := label_rows d (CStr b)\<rparr>"
  have c: "''lengths'' \<in> set (columns ?sub)" "''length_filter'' \<in> set (columns ?sub)"
    "lengths_pointer (label_settings st b) \<in> set (columns ?sub)"
    using assms by (simp_all add: label_settings_def)
  have r: "snd (make_plots ext ?sub (label_settings st b)) =
           Inr (rendered ext (fst (make_plots ext ?sub (label_settings st b))))"
    by (rule make_plots_res [OF c])
  have s: "st\<lparr>path := p, title := t, path := path_join (outdir st) (prefix st @ b @ ''_''),
              title := Some b\<rparr> = label_settings st b"
    by (simp add: label_settings_def)
  show ?thesis
    by (simp add: barcode_step_def Let_def bindP_emit bindP_liftE_Inr
        barcode_subset_ok [OF assms(1)] df_len_def fst_bindP snd_bindP
        r [unfolded label_settings_def] label_settings_def returnP_def
        label_events_def label_plots_def str_cell_def stderr_notice_def log_notice_def fst_emit
        snd_emit)
qed


lemma barcode_loop_str:
  assumes "''barcode'' \<in> set (columns d)" and "''lengths'' \<in> set (columns d)"
    and "''length_filter'' \<in> set (columns d)" and "lengths_pointer st \<in> set (columns d)"
    and "\<forall>v \<in> set bs. \<exists>b. v = CStr b"
  shows "fst (barcode_loop ext d bs (st\<lparr>path := p, title := t\<rparr>) ps) =
           concat (map (label_events ext d st) bs) \<and>
         (\<exists>st'. snd (barcode_loop ext d bs (st\<lparr>path := p, title := t\<rparr>) ps) =
            Inr (st', ps @ concat (map (\<lambda>v. rendered ext (fst (label_plots ext d st v)))
                             (filter (\<lambda>v. 5 < length (label_rows d v)) bs))) \<and>
            path st' = (if bs = [] then p
                        else path_join (outdir st) (prefix st @ str_cell ext (last bs) @ ''_'')))"
  using assms(5)
proof (induction bs arbitrary: p t ps)
  case Nil
  show ?case by (simp add: returnP_def)
next
  case (Cons v bs)
  then obtain b where v: "v = CStr b" by auto
  from Cons.prems have rest: "\<forall>v \<in> set bs. \<exists>b. v = CStr b" by simp
  let ?pj = "path_join (outdir st) (prefix st @ b @ ''_'')"
  let ?n = "length (label_rows d (CStr b))"
  let ?t1 = "if 5 < ?n then Some b else t"
  let ?ps1 = "if 5 < ?n then ps @ rendered ext (fst (label_plots ext d st (CStr b))) else ps"
  have step: "barcode_step ext d (CStr b) (st\<lparr>path := p, title := t\<rparr>) ps =
     (label_events ext d st (CStr b), Inr (st\<lparr>path := ?pj, title := ?t1\<rparr>, ?ps1))"
    by (simp add: barcode_step_str [OF assms(1-4)] label_settings_def)
  have loop: "barcode_loop ext d (CStr b # bs) (st\<lparr>path := p, title := t\<rparr>) ps =
     (label_events ext d st (CStr b) @
        fst (barcode_loop ext d bs (st\<lparr>path := ?pj, title := ?t1\<rparr>) ?ps1),
      snd (barcode_loop ext d bs (st\<lparr>path := ?pj, title := ?t1\<rparr>) ?ps1))"
    unfolding barcode_loop.simps step bindP_Pair_Inr by simp
  from Cons.IH [OF rest, where p = ?pj and t = ?t1 and ps = ?ps1] obtain st' where
    e: "fst (barcode_loop ext d bs (st\<lparr>path := ?pj, title := ?t1\<rparr>) ?ps1) =
        concat (map (label_events ext d st) bs)" and
    r: "snd (barcode_loop ext d bs (st\<lparr>path := ?pj, title := ?t1\<rparr>) ?ps1) =
        Inr (st', ?ps1 @ concat (map (\<lambda>v. rendered ext (fst (label_plots ext d st v)))
                             (filter (\<lambda>v. 5 < length (label_rows d v)) bs)))" and
    q: "path st' = (if bs = [] then ?pj
                    else path_join (outdir st) (prefix st @ str_cell ext (last bs) @ ''_''))"
    by blast
  have "fst (barcode_loop ext d (v # bs) (st\<lparr>path := p, title := t\<rparr>) ps) =
        concat (map (label_events ext d st) (v # bs))"
    by (simp add: v loop e del: barcode_loop.simps)
  moreover have "snd (barcode_loop ext d (v # bs) (st\<lparr>path := p, title := t\<rparr>) ps) =
      Inr (st', ps @ concat (map (\<lambda>v. rendered ext (fst (label_plots ext d st v)))
                       (filter (\<lambda>v. 5 < length (label_rows d v)) (v # bs))))"
    by (simp add: v loop r del: barcode_loop.simps)
  moreover have "path st' = (if v # bs = [] then p
      else path_join (outdir st) (prefix st @ str_cell ext (last (v # bs)) @ ''_''))"
    by (simp add: q v str_cell_def)
  ultimately show ?case by blast
qed

lemma set_unique: "set (unique xs) = set xs"
  by (induction xs rule: unique.induct) auto

lemma count_unique:
  "sum_list (map (\<lambda>v. length (filter (\<lambda>y. y = v) xs)) (unique xs)) = length xs"
proof (induction xs rule: unique.induct)
  case 1
  show ?case by simp
next
  case (2 x xs)
  let ?ys = "filter (\<lambda>y. y \<noteq> x) xs"
  have "map (\<lambda>v. length (filter (\<lambda>y. y = v) (x # xs))) (unique ?ys) =
        map (\<lambda>v. length (filter (\<lambda>y. y = v) ?ys)) (unique ?ys)"
  proof (rule map_cong [OF refl])
    fix v assume "v \<in> set (unique ?ys)"
    then have "v \<noteq> x" by (simp add: set_unique)
    then have "filter (\<lambda>y. y = v) ?ys = filter (\<lambda>y. y = v) xs"
      by (auto intro: filter_cong)
    with \<open>v \<noteq> x\<close> show "length (filter (\<lambda>y. y = v) (x # xs)) = length (filter (\<lambda>y. y = v) ?ys)"
      by simp
  qed
  then have "sum_list (map (\<lambda>v. length (filter (\<lambda>y. y = v) (x # xs))) (unique ?ys)) =
             sum_list (map (\<lambda>v. length (filter (\<lambda>y. y = v) ?ys)) (unique ?ys))"
    by (rule arg_cong)
  then have "sum_list (map (\<lambda>v. length (filter (\<lambda>y. y = v) (x # xs))) (unique ?ys)) =
             length ?ys"
    by (simp only: "2.IH")
  moreover have "length (filter (\<lambda>y. y = x) xs) + length ?ys = length xs"
    using sum_length_filter_compl [of "\<lambda>y. y = x" xs] by simp
  ultimately show ?case by simp
qed

lemma label_rows_count:
  "v \<noteq> CNaN \<Longrightarrow>
   length (label_rows d v) = length (filter (\<lambda>y. y = v) (column_over (rows d) ''barcode''))"
  by (simp add: label_rows_def column_over_def filter_map comp_def)

lemma sum_split_filter:
  "sum_list (map f (filter P xs)) + sum_list (map f (filter (\<lambda>x. \<not> P x) xs)) =
   sum_list (map (f :: 'a \<Rightarrow> nat) xs)"
  by (induction xs) auto

lemma labels_partition:
  assumes "string_labels d"
  shows "sum_list (map (\<lambda>v. length (label_rows d v)) (retained_labels d)) +
         sum_list (map (\<lambda>v. length (label_rows d v)) (skipped_labels d)) = df_len d"
proof -
  have "map (\<lambda>v. length (label_rows d v)) (barcode_labels d) =
        map (\<lambda>v. length (filter (\<lambda>y. y = v) (column_over (rows d) ''barcode'')))
          (barcode_labels d)"
  proof (rule map_cong [OF refl])
    fix v assume "v \<in> set (barcode_labels d)"
    then have "v \<noteq> CNaN"
      using assms by (auto simp add: barcode_labels_def set_unique string_labels_def)
    then show "length (label_rows d v) =
               length (filter (\<lambda>y. y = v) (column_over (rows d) ''barcode''))"
      by (rule label_rows_count)
  qed
  then have "sum_list (map (\<lambda>v. length (label_rows d v)) (barcode_labels d)) =
        sum_list (map (\<lambda>v. length (filter (\<lambda>y. y = v) (column_over (rows d) ''barcode'')))
          (unique (column_over (rows d) ''barcode'')))"
    by (simp only: barcode_labels_def)
  also have "\<dots> = length (column_over (rows d) ''barcode'')"
    by (rule count_unique)
  also have "\<dots> = df_len d"
    by (simp add: column_over_def df_len_def)
  finally have "sum_list (map (\<lambda>v. length (label_rows d v)) (barcode_labels d)) = df_len d" .
  then show ?thesis
    by (simp add: retained_labels_def skipped_labels_def sum_split_filter)
qed

lemma stderr_writes_append: "stderr_writes (xs @ ys) = stderr_writes xs @ stderr_writes ys"
  by (simp add: stderr_writes_def)

lemma log_infos_append: "log_infos (xs @ ys) = log_infos xs @ log_infos ys"
  by (simp add: log_infos_def)

lemma plot_event_no_stderr: "\<forall>ev \<in> set evs. plot_event ev \<Longrightarrow> stderr_writes evs = []"
proof (induction evs)
  case Nil
  then show ?case by (simp add: stderr_writes_def)
next
  case (Cons ev evs)
  then show ?case by (cases ev) (simp_all add: stderr_writes_def)
qed

lemma label_plots_no_stderr: "stderr_writes (fst (label_plots ext d st v)) = []"
  using make_plots_events [of ext "d\<lparr>rows := label_rows d v\<rparr>" "label_settings st (str_cell ext v)"]
  by (simp add: label_plots_def only_events_def plot_event_no_stderr)

lemma label_events_render:
  "render_calls (concat (map (label_events ext d st) bs)) =
   concat (map (\<lambda>v. render_calls (fst (label_plots ext d st v)))
     (filter (\<lambda>v. 5 < length (label_rows d v)) bs))"
  by (induction bs)
    (simp_all add: render_calls_Nil render_calls_append render_calls_Cons label_events_def)

lemma label_events_stderr:
  "stderr_writes (concat (map (label_events ext d st) bs)) =
   map (\<lambda>v. stderr_notice (str_cell ext v)) (filter (\<lambda>v. \<not> 5 < length (label_rows d v)) bs)"
proof (induction bs)
  case Nil
  show ?case by (simp add: stderr_writes_def)
next
  case (Cons v bs)
  have "stderr_writes (label_events ext d st v) =
        (if 5 < length (label_rows d v) then [] else [stderr_notice (str_cell ext v)])"
    by (simp add: label_events_def stderr_writes_def [of "_ # _"] label_plots_no_stderr
        stderr_writes_def [of "[]"] flip: stderr_writes_def)
  then show ?case using Cons by (simp add: stderr_writes_append)
qed

lemma label_events_log:
  assumes "v \<in> set bs" and "\<not> 5 < length (label_rows d v)"
  shows "log_notice (str_cell ext v) \<in> set (log_infos (concat (map (label_events ext d st) bs)))"
proof -
  have "log_notice (str_cell ext v) \<in> set (log_infos (label_events ext d st v))"
    using assms(2) by (simp add: label_events_def log_infos_def)
  moreover obtain xs ys where "bs = xs @ v # ys"
    using assms(1) by (meson split_list)
  ultimately show ?thesis
    by (simp add: log_infos_append)
qed

lemma main_plots_barcoded:
  assumes "barcoded st" and "''barcode'' \<in> set (columns d)" and "''lengths'' \<in> set (columns d)"
    and "''length_filter'' \<in> set (columns d)" and "lengths_pointer st \<in> set (columns d)"
    and "string_labels d"
  shows "fst (main_plots ext d st) = concat (map (label_events ext d st) (barcode_labels d)) \<and>
         (\<exists>st'. snd (main_plots ext d st) =
            Inr (st', concat (map (\<lambda>v. rendered ext (fst (label_plots ext d st v)))
                        (retained_labels d))) \<and>
            path st' = (if barcode_labels d = [] then path st
                        else path_join (outdir st)
                               (prefix st @ str_cell ext (last (barcode_labels d)) @ ''_'')))"
proof -
  have l: "\<forall>v \<in> set (barcode_labels d). \<exists>b. v = CStr b"
    using assms(6) by (simp add: barcode_labels_def set_unique string_labels_def)
  have m: "main_plots ext d st =
           barcode_loop ext d (barcode_labels d) (st\<lparr>path := path st, title := title st\<rparr>) []"
    using assms(1)
    by (simp add: main_plots_def df_getitem_ok [OF assms(2)] bindP_liftE_Inr barcode_labels_def)
  show ?thesis
    unfolding m retained_labels_def
    using barcode_loop_str [OF assms(2-5) l, where ext = ext and p = "path st"
        and t = "title st" and ps = "[]"]
    by simp
qed

lemma reads_barcoded_labels:
  "barcode_labels reads_barcoded = [CStr ''BC01'', CStr ''BC02'']"
  by (simp add: barcode_labels_def reads_barcoded_def column_over_def cell_of_def)

lemma reads_barcoded_counts:
  "length (label_rows reads_barcoded (CStr ''BC01'')) = 6"
  "length (label_rows reads_barcoded (CStr ''BC02'')) = 1"
  by (simp_all add: label_rows_def reads_barcoded_def cell_of_def)

lemma reads_barcoded_string_labels: "string_labels reads_barcoded"
  by (simp add: string_labels_def reads_barcoded_def column_over_def cell_of_def)

section \<open>A whole run\<close>

lemma loop_event_silent: "loop_event ev \<Longrightarrow> silent_event ev"
  by (cases ev) simp_all

lemma make_stats_silent: "only_events silent_event (make_stats d st sfx)"
  unfolding make_stats_def Let_def by (intro only_intros) simp_all

lemma main_stats_silent: "only_events silent_event (main_stats ext d st)"
  unfolding main_stats_def Let_def
  by (cases "filter_and_transform_data ext d
        (st\<lparr>statsfile := [projr (snd (make_stats d st []))]\<rparr>)")
    (auto intro!: only_intros make_stats_silent split: prod.splits)

lemma main_plots_silent: "only_events silent_event (main_plots ext d st)"
  by (rule only_mono [OF main_plots_events]) (rule loop_event_silent)

lemma files_written_append: "files_written (xs @ ys) = files_written xs @ files_written ys"
  by (simp add: files_written_def)

lemma stdout_lines_append: "stdout_lines (xs @ ys) = stdout_lines xs @ stdout_lines ys"
  by (simp add: stdout_lines_def)

lemma log_errors_append: "log_errors (xs @ ys) = log_errors xs @ log_errors ys"
  by (simp add: log_errors_def)

lemma silent_projections:
  assumes "\<forall>ev \<in> set evs. silent_event ev"
  shows "files_written evs = [] \<and> stdout_lines evs = [] \<and> log_errors evs = []"
  using assms
proof (induction evs)
  case Nil
  show ?case by (simp add: files_written_def stdout_lines_def log_errors_def)
next
  case (Cons ev evs)
  then show ?case
    by (cases ev) (simp_all add: files_written_def stdout_lines_def log_errors_def)
qed

lemma stats_panel_ok:
  assumes "(if filtered st then 2 else 1) \<le> length (statsfile st)"
  shows "\<exists>sp. stats_panel ext st = Inr sp"
proof -
  have i0: "py_index (statsfile st) 0 = Inr (statsfile st ! 0)"
    using assms by (auto simp add: py_index_def split: if_splits)
  have i1: "filtered st \<Longrightarrow> py_index (statsfile st) (Suc 0) = Inr (statsfile st ! 1)"
    using assms by (auto simp add: py_index_def split: if_splits)
  show ?thesis
    by (cases "filtered st") (simp_all add: stats_panel_def i0 i1)
qed

lemma make_report_ok:
  assumes "(if filtered st then 2 else 1) \<le> length (statsfile st)"
  shows "snd (make_report ext ps st) = Inr (path st @ ''NanoPlot-report.html'') \<and>
         files_written (fst (make_report ext ps st)) = [path st @ ''NanoPlot-report.html''] \<and>
         stdout_lines (fst (make_report ext ps st)) = [] \<and>
         log_errors (fst (make_report ext ps st)) = [] \<and>
         stderr_writes (fst (make_report ext ps st)) = []"
proof -
  obtain hc where hc: "html_content ext ps st = Inr hc"
    using stats_panel_ok [OF assms, of ext] by (auto simp add: html_content_def)
  show ?thesis
    by (simp add: make_report_def Let_def bindP_emit hc bindP_liftE_Inr returnP_def
        files_written_def stdout_lines_def log_errors_def stderr_writes_def)
qed

lemma main_stats_quiet:
  "files_written (fst (main_stats ext d st)) = [] \<and> stdout_lines (fst (main_stats ext d st)) = [] \<and>
   log_errors (fst (main_stats ext d st)) = []"
  using main_stats_silent [of ext d st] by (simp add: only_events_def silent_projections)

lemma main_plots_quiet:
  "files_written (fst (main_plots ext d st)) = [] \<and> stdout_lines (fst (main_plots ext d st)) = [] \<and>
   log_errors (fst (main_plots ext d st)) = []"
  using main_plots_silent [of ext d st] by (simp add: only_events_def silent_projections)

lemma files_written_Cons:
  "files_written (ev # evs) = (case ev of WriteFile f c \<Rightarrow> [f] | _ \<Rightarrow> []) @ files_written evs"
  by (simp add: files_written_def)

lemma stdout_lines_Cons:
  "stdout_lines (ev # evs) = (case ev of Print s \<Rightarrow> [s] | _ \<Rightarrow> []) @ stdout_lines evs"
  by (simp add: stdout_lines_def)

lemma log_errors_Cons:
  "log_errors (ev # evs) = (case ev of LogError e \<Rightarrow> [e] | _ \<Rightarrow> []) @ log_errors evs"
  by (simp add: log_errors_def)

lemma stderr_writes_Cons:
  "stderr_writes (ev # evs) = (case ev of StderrWrite s \<Rightarrow> [s] | _ \<Rightarrow> []) @ stderr_writes evs"
  by (simp add: stderr_writes_def)

lemma main_body_run:
  assumes "snd (main_stats ext d (startup_settings ext args)) = Inr (d1, st1)"
    and "snd (main_plots ext d1 st1) = Inr (st2, ps)"
    and "(if filtered st2 then 2 else 1) \<le> length (statsfile st2)"
  shows "snd (main_body ext args (Inr d)) = Inr () \<and>
         files_written (fst (main_body ext args (Inr d))) = [path st2 @ ''NanoPlot-report.html''] \<and>
         stdout_lines (fst (main_body ext args (Inr d))) = [] \<and>
         log_errors (fst (main_body ext args (Inr d))) = []"
proof -
  note s = assms(1) [unfolded startup_settings_def]
  note r = make_report_ok [OF assms(3), of ext ps]
  have pre: "files_written [MakeOutputDir x] = []" "files_written [InitLogs] = []"
    "files_written [PickleDump y z] = []" "files_written [ToCsv y z] = []"
    "files_written [LogInfo w] = []" "files_written [] = []"
    "stdout_lines [MakeOutputDir x] = []" "stdout_lines [InitLogs] = []"
    "stdout_lines [PickleDump y z] = []" "stdout_lines [ToCsv y z] = []"
    "stdout_lines [LogInfo w] = []" "stdout_lines [] = []"
    "log_errors [MakeOutputDir x] = []" "log_errors [InitLogs] = []"
    "log_errors [PickleDump y z] = []" "log_errors [ToCsv y z] = []"
    "log_errors [LogInfo w] = []" "log_errors [] = []" for x y z w
    by (simp_all add: files_written_def stdout_lines_def log_errors_def)
  show ?thesis
    by (simp add: main_body_def Let_def fst_bindP snd_bindP fst_emit snd_emit fst_returnP
        snd_returnP liftE_def s assms(2) r files_written_append stdout_lines_append
        log_errors_append main_stats_quiet main_plots_quiet pre files_written_Cons
        stdout_lines_Cons log_errors_Cons)
qed

lemma main_run:
  assumes "snd (main_stats ext d (startup_settings ext args)) = Inr (d1, st1)"
    and "snd (main_plots ext d1 st1) = Inr (st2, ps)"
    and "(if filtered st2 then 2 else 1) \<le> length (statsfile st2)"
  shows "snd (main ext args (Inr d)) = Inr () \<and>
         files_written (fst (main ext args (Inr d))) = [path st2 @ ''NanoPlot-report.html'']"
  using main_body_run [OF assms] by (simp add: main_def)

lemma silent_body: "silent_event ev \<Longrightarrow> body_event ev"
  by (cases ev) simp_all

lemma make_report_body: "only_events body_event (make_report ext ps st)"
  unfolding make_report_def Let_def by (intro only_intros) simp_all

lemma main_body_events: "only_events body_event (main_body ext args ingest)"
proof -
  have a: "\<And>d st. only_events body_event (main_stats ext d st)"
    by (rule only_mono [OF main_stats_silent]) (rule silent_body)
  have b: "\<And>d st. only_events body_event (main_plots ext d st)"
    by (rule only_mono [OF main_plots_silent]) (rule silent_body)
  show ?thesis
    unfolding main_body_def Let_def
    by (intro only_intros a b make_report_body) simp_all
qed

lemma body_projections:
  assumes "\<forall>ev \<in> set evs. body_event ev"
  shows "stdout_lines evs = [] \<and> log_errors evs = []"
  using assms
proof (induction evs)
  case Nil
  show ?case by (simp add: stdout_lines_def log_errors_def)
next
  case (Cons ev evs)
  then show ?case
    by (cases ev) (simp_all add: stdout_lines_def log_errors_def)
qed

lemma main_body_quiet:
  "stdout_lines (fst (main_body ext args ingest)) = [] \<and>
   log_errors (fst (main_body ext args ingest)) = []"
  using main_body_events [of ext args ingest] by (simp add: only_events_def body_projections)

lemma handler_projections:
  "stdout_lines ([LogError e] @ map Print msgs) = msgs \<and>
   log_errors ([LogError e] @ map Print msgs) = [e] \<and>
   stderr_writes ([LogError e] @ map Print msgs) = []"
  by (induction msgs) (simp_all add: stdout_lines_def log_errors_def stderr_writes_def)

lemma main_handler:
  assumes "snd (main_body ext args ingest) = Inl e"
  shows "snd (main ext args ingest) = Inl e \<and>
         fst (main ext args ingest) =
           fst (main_body ext args ingest) @ [LogError e] @ map Print crash_message \<and>
         log_errors (fst (main ext args ingest)) = [e] \<and>
         stdout_lines (fst (main ext args ingest)) = crash_message \<and>
         stderr_writes (fst (main ext args ingest)) =
           stderr_writes (fst (main_body ext args ingest))"
proof -
  have m: "main ext args ingest =
      (fst (main_body ext args ingest) @ [LogError e] @ map Print crash_message, Inl e)"
    using assms by (simp add: main_def)
  show ?thesis
    unfolding m using main_body_quiet [of ext args ingest] handler_projections [of e crash_message]
    by (simp only: fst_conv snd_conv stdout_lines_append log_errors_append stderr_writes_append
        append_Nil append_Nil2 simp_thms)
qed

lemma make_stats_no_barcode:
  assumes "barcoded st" and "''barcode'' \<notin> set (columns d)"
  shows "snd (make_stats d st sfx) = Inl (KeyError ''barcode'') \<and>
         stderr_writes (fst (make_stats d st sfx)) = []"
  using assms
  by (simp add: make_stats_def Let_def bindP_emit df_getitem_def bindP_liftE_Inl
      stderr_writes_def)

lemma main_stats_no_barcode:
  assumes "barcoded st" and "''barcode'' \<notin> set (columns d)"
  shows "snd (main_stats ext d st) = Inl (KeyError ''barcode'')"
    and "stderr_writes (fst (main_stats ext d st)) = []"
  using make_stats_no_barcode [OF assms, where sfx = "[]"]
  by (simp_all add: main_stats_def fst_bindP snd_bindP)

lemma main_body_no_barcode:
  assumes "barcoded args" and "''barcode'' \<notin> set (columns d)"
  shows "snd (main_body ext args (Inr d)) = Inl (KeyError ''barcode'') \<and>
         stderr_writes (fst (main_body ext args (Inr d))) = []"
  using assms
  by (simp add: main_body_def Let_def fst_bindP snd_bindP fst_emit snd_emit fst_returnP
      snd_returnP liftE_def main_stats_no_barcode stderr_writes_append stderr_writes_Cons
      stderr_writes_def [of "[]"])

section \<open>The report\<close>

lemma replace_spaces_inj_on: "CHR ''_'' \<notin> A \<Longrightarrow> inj_on (\<lambda>c. if c = CHR '' '' then CHR ''_'' else c) A"
  by (auto simp add: inj_on_def split: if_splits)

lemma replace_spaces_eq:
  assumes "CHR ''_'' \<notin> set s" and "CHR ''_'' \<notin> set t" and "replace_spaces s = replace_spaces t"
  shows "s = t"
proof -
  have "inj_on (\<lambda>c. if c = CHR '' '' then CHR ''_'' else c) (set s \<union> set t)"
    using assms(1,2) by (intro replace_spaces_inj_on) simp
  then show ?thesis
    using assms(3) unfolding replace_spaces_def by (rule map_inj_on [rotated])
qed

lemma anchors_distinct:
  assumes "\<forall>p \<in> set ps. CHR ''_'' \<notin> set (plot_title p)" and "distinct (map plot_title ps)"
  shows "distinct (map plot_anchor ps)"
proof -
  have "inj_on replace_spaces (set (map plot_title ps))"
    using assms(1) by (auto simp add: inj_on_def intro: replace_spaces_eq)
  then have "distinct (map replace_spaces (map plot_title ps))"
    using assms(2) by (simp only: distinct_map)
  moreover have "plot_anchor = (\<lambda>p. replace_spaces (plot_title p))"
    by (simp add: fun_eq_iff plot_anchor_def)
  ultimately show ?thesis
    by (simp add: comp_def)
qed

lemma html_content_ok:
  assumes "stats_panel ext st = Inr sp"
  shows \<open>html_content ext ps st =
     Inr ([''<body>'', ''<div class="panel panelC">''] @ toc_stats_links st @
          [''<p><strong><a href="#plots">Plots</a></strong></p>''] @
          map toc_plot_link ps @ [''</div>''] @ sp @ plots_panel ext ps)\<close>
  by (simp add: html_content_def assms toc_panel_def)

lemma make_report_events:
  assumes "html_content ext ps st = Inr hc"
  shows \<open>fst (make_report ext ps st) =
     [LogInfo ''Writing html report.'',
      WriteFile (path st @ ''NanoPlot-report.html'')
        (html_head ext @ str_join ''\<newline>'' hc @ ''</div></body></html>'')]\<close>
  by (simp add: make_report_def Let_def bindP_emit assms bindP_liftE_Inr returnP_def)









section \<open>Claims about make_plots\<close>

text \<open>
  C1. On a dataset that has the base columns lengths and length_filter and the column that
  lengths_pointer names, make_plots does not raise, whichever optional columns are
  missing; the backend calls it makes are exactly the plot families whose required
  columns are present, in the fixed order; and the list it returns consists of the plots
  that the backend gave for these calls, in the order of the calls. In particular, with percentIdentity present and
  aligned_quals absent, of the two percent-identity scatters only "Aligned read length
  against percent identity" is made.
\<close>

theorem make_plots_selects_present_families:
  assumes "''lengths'' \<in> set (columns d)" and "''length_filter'' \<in> set (columns d)"
    and "lengths_pointer st \<in> set (columns d)"
  shows "snd (make_plots ext d st) =
           Inr (concat (map (render ext) (render_calls (fst (make_plots ext d st))))) \<and>
         map call_family (render_calls (fst (make_plots ext d st))) =
           map Some (families_present d) \<and>
         (''percentIdentity'' \<in> set (columns d) \<and> ''aligned_quals'' \<notin> set (columns d) \<longrightarrow>
            filter (\<lambda>f. f \<in> {Some PercentIdentityVsBaseQuality,
                              Some AlignedLengthVsPercentIdentity})
              (map call_family (render_calls (fst (make_plots ext d st)))) =
            [Some AlignedLengthVsPercentIdentity])"
proof (intro conjI)
  show "snd (make_plots ext d st) =
        Inr (concat (map (render ext) (render_calls (fst (make_plots ext d st)))))"
    using make_plots_res [OF assms, of ext] by (simp add: rendered_def)
  show "map call_family (render_calls (fst (make_plots ext d st))) =
        map Some (families_present d)"
    by (rule make_plots_families [OF assms])
  show "''percentIdentity'' \<in> set (columns d) \<and> ''aligned_quals'' \<notin> set (columns d) \<longrightarrow>
        filter (\<lambda>f. f \<in> {Some PercentIdentityVsBaseQuality,
                          Some AlignedLengthVsPercentIdentity})
          (map call_family (render_calls (fst (make_plots ext d st)))) =
        [Some AlignedLengthVsPercentIdentity]"
    by (simp add: make_plots_families [OF assms] families_present_eq)
qed

theorem make_plots_selects_present_families_witness:
  "''lengths'' \<in> set (columns reads_identity) \<and>
   ''length_filter'' \<in> set (columns reads_identity) \<and>
   lengths_pointer demo_settings \<in> set (columns reads_identity) \<and>
   ''percentIdentity'' \<in> set (columns reads_identity) \<and>
   ''aligned_quals'' \<notin> set (columns reads_identity) \<and>
   snd (make_plots demo_backend reads_identity demo_settings) =
     Inr (concat (map (render demo_backend)
       (render_calls (fst (make_plots demo_backend reads_identity demo_settings))))) \<and>
   map call_family (render_calls (fst (make_plots demo_backend reads_identity demo_settings))) =
     [Some ReadLength, Some AlignedLengthVsPercentIdentity] \<and>
   length (concat (map (render demo_backend)
     (render_calls (fst (make_plots demo_backend reads_identity demo_settings))))) = 2"
proof -
  have h1: "''lengths'' \<in> set (columns reads_identity)"
    and h2: "''length_filter'' \<in> set (columns reads_identity)"
    and h3: "lengths_pointer demo_settings \<in> set (columns reads_identity)"
    by (simp_all add: reads_identity_def demo_settings_def)
  have fp: "families_present reads_identity = [ReadLength, AlignedLengthVsPercentIdentity]"
    by (simp add: families_present_eq reads_identity_def)
  note t = make_plots_selects_present_families [OF h1 h2 h3, of demo_backend]
  from t have r: "snd (make_plots demo_backend reads_identity demo_settings) =
      Inr (concat (map (render demo_backend)
        (render_calls (fst (make_plots demo_backend reads_identity demo_settings)))))"
    by blast
  from t have f: "map call_family
      (render_calls (fst (make_plots demo_backend reads_identity demo_settings))) =
      [Some ReadLength, Some AlignedLengthVsPercentIdentity]"
    by (simp add: fp)
  then obtain c1 c2 where
    cs: "render_calls (fst (make_plots demo_backend reads_identity demo_settings)) = [c1, c2]"
    and f1: "call_family c1 = Some ReadLength"
    and f2: "call_family c2 = Some AlignedLengthVsPercentIdentity"
    by (auto simp add: map_eq_Cons_conv)
  have rd: "render demo_backend c =
      (case call_family c of None \<Rightarrow> []
       | Some f \<Rightarrow> [\<lparr>plot_title = ''plot'', plot_path = ''plot.png''\<rparr>])" for c
    by (simp add: demo_backend_def)
  have n: "length (concat (map (render demo_backend)
      (render_calls (fst (make_plots demo_backend reads_identity demo_settings))))) = 2"
    by (simp add: cs rd f1 f2)
  have h4: "''percentIdentity'' \<in> set (columns reads_identity)"
    and h5: "''aligned_quals'' \<notin> set (columns reads_identity)"
    by (simp_all add: reads_identity_def)
  show ?thesis
    using h1 h2 h3 h4 h5 r f n by blast
qed

text \<open>
  C8. The order of the plot families is fixed: two runs of make_plots on datasets with
  the same columns (in particular two runs on the same dataset and settings) make the
  same families in the same order, whatever the rows, the settings and the backend; the
  families made are listed in the fixed family order (read length, length against
  quality, activity map, time plots, aligned against sequenced length, the two mapQ
  scatters, the percent-identity scatters); and the descriptors returned are those the
  backend gave for these calls, in this order.
\<close>

theorem make_plots_order_stable:
  assumes "''lengths'' \<in> set (columns d1)" and "''length_filter'' \<in> set (columns d1)"
    and "lengths_pointer st1 \<in> set (columns d1)"
    and "''lengths'' \<in> set (columns d2)" and "''length_filter'' \<in> set (columns d2)"
    and "lengths_pointer st2 \<in> set (columns d2)"
    and "set (columns d1) = set (columns d2)"
  shows "map call_family (render_calls (fst (make_plots ext1 d1 st1))) =
           map call_family (render_calls (fst (make_plots ext2 d2 st2))) \<and>
         map call_family (render_calls (fst (make_plots ext1 d1 st1))) =
           map Some (filter (\<lambda>f. Some f \<in> set (map call_family
                        (render_calls (fst (make_plots ext1 d1 st1))))) family_order) \<and>
         snd (make_plots ext1 d1 st1) =
           Inr (concat (map (render ext1) (render_calls (fst (make_plots ext1 d1 st1)))))"
proof (intro conjI)
  have f1: "map call_family (render_calls (fst (make_plots ext1 d1 st1))) =
            map Some (families_present d1)"
    by (rule make_plots_families [OF assms(1-3)])
  have f2: "map call_family (render_calls (fst (make_plots ext2 d2 st2))) =
            map Some (families_present d2)"
    by (rule make_plots_families [OF assms(4-6)])
  have same: "families_present d1 = families_present d2"
    by (simp add: families_present_def assms(7))
  show "map call_family (render_calls (fst (make_plots ext1 d1 st1))) =
        map call_family (render_calls (fst (make_plots ext2 d2 st2)))"
    by (simp add: f1 f2 same)
  show "map call_family (render_calls (fst (make_plots ext1 d1 st1))) =
        map Some (filter (\<lambda>f. Some f \<in> set (map call_family
                     (render_calls (fst (make_plots ext1 d1 st1))))) family_order)"
    unfolding f1 families_present_def by (simp only: filter_present_family_order)
  show "snd (make_plots ext1 d1 st1) =
        Inr (concat (map (render ext1) (render_calls (fst (make_plots ext1 d1 st1)))))"
    using make_plots_res [OF assms(1-3), of ext1] by (simp add: rendered_def)
qed

theorem make_plots_order_stable_witness:
  "''lengths'' \<in> set (columns reads_identity) \<and>
   ''length_filter'' \<in> set (columns reads_identity) \<and>
   lengths_pointer demo_settings \<in> set (columns reads_identity) \<and>
   ''lengths'' \<in> set (columns reads_identity_shuffled) \<and>
   ''length_filter'' \<in> set (columns reads_identity_shuffled) \<and>
   lengths_pointer (demo_settings\<lparr>N50 := True\<rparr>) \<in> set (columns reads_identity_shuffled) \<and>
   set (columns reads_identity) = set (columns reads_identity_shuffled) \<and>
   map call_family (render_calls (fst (make_plots demo_backend reads_identity demo_settings))) =
     map call_family (render_calls
       (fst (make_plots demo_backend reads_identity_shuffled (demo_settings\<lparr>N50 := True\<rparr>))))"
proof -
  have h1: "''lengths'' \<in> set (columns reads_identity)"
    and h2: "''length_filter'' \<in> set (columns reads_identity)"
    and h3: "lengths_pointer demo_settings \<in> set (columns reads_identity)"
    and h4: "''lengths'' \<in> set (columns reads_identity_shuffled)"
    and h5: "''length_filter'' \<in> set (columns reads_identity_shuffled)"
    and h6: "lengths_pointer (demo_settings\<lparr>N50 := True\<rparr>) \<in> set (columns reads_identity_shuffled)"
    by (simp_all add: reads_identity_def reads_identity_shuffled_def demo_settings_def)
  have h7: "set (columns reads_identity) = set (columns reads_identity_shuffled)"
    by (auto simp add: reads_identity_def reads_identity_shuffled_def)
  show ?thesis
    using make_plots_order_stable [OF h1 h2 h3 h4 h5 h6 h7, of demo_backend demo_backend]
      h1 h2 h3 h4 h5 h6 h7
    by simp
qed

text \<open>
  C9. Every length-dependent plot (read length, length against quality, aligned against
  sequenced length, read length against mapQ, aligned length against percent identity)
  is given its columns over the rows whose length_filter is true only, and the activity
  map is given the channelIDs column over all rows.
\<close>

theorem length_dependent_plots_use_filtered_rows:
  assumes "''lengths'' \<in> set (columns d)" and "''length_filter'' \<in> set (columns d)"
    and "lengths_pointer st \<in> set (columns d)"
  shows "\<forall>c \<in> set (render_calls (fst (make_plots ext d st))).
     (call_family c = Some ReadLength \<longrightarrow>
        call_arrays c = [column_over (passing_rows d) ''lengths'']) \<and>
     (call_family c = Some LengthVsQuality \<longrightarrow>
        call_arrays c = [column_over (passing_rows d) (lengths_pointer st),
                         column_over (passing_rows d) ''quals'']) \<and>
     (call_family c = Some AlignedVsSequenced \<longrightarrow>
        call_arrays c = [column_over (passing_rows d) ''aligned_lengths'',
                         column_over (passing_rows d) ''lengths'']) \<and>
     (call_family c = Some ReadLengthVsMapQ \<longrightarrow>
        call_arrays c = [column_over (passing_rows d) (lengths_pointer st),
                         column_over (passing_rows d) ''mapQ'']) \<and>
     (call_family c = Some AlignedLengthVsPercentIdentity \<longrightarrow>
        call_arrays c = [column_over (passing_rows d) (lengths_pointer st),
                         column_over (passing_rows d) ''percentIdentity'']) \<and>
     (call_family c = Some ActivityMap \<longrightarrow>
        call_arrays c = [column_over (rows d) ''channelIDs''])"
proof
  fix c
  assume "c \<in> set (render_calls (fst (make_plots ext d st)))"
  then have "call_summary c \<in> set (map call_summary (render_calls (fst (make_plots ext d st))))"
    by simp
  then have "(call_family c, call_arrays c) \<in> set (expected_summary d st)"
    by (simp only: make_plots_summary [OF assms] call_summary_def)
  then show "(call_family c = Some ReadLength \<longrightarrow>
        call_arrays c = [column_over (passing_rows d) ''lengths'']) \<and>
     (call_family c = Some LengthVsQuality \<longrightarrow>
        call_arrays c = [column_over (passing_rows d) (lengths_pointer st),
                         column_over (passing_rows d) ''quals'']) \<and>
     (call_family c = Some AlignedVsSequenced \<longrightarrow>
        call_arrays c = [column_over (passing_rows d) ''aligned_lengths'',
                         column_over (passing_rows d) ''lengths'']) \<and>
     (call_family c = Some ReadLengthVsMapQ \<longrightarrow>
        call_arrays c = [column_over (passing_rows d) (lengths_pointer st),
                         column_over (passing_rows d) ''mapQ'']) \<and>
     (call_family c = Some AlignedLengthVsPercentIdentity \<longrightarrow>
        call_arrays c = [column_over (passing_rows d) (lengths_pointer st),
                         column_over (passing_rows d) ''percentIdentity'']) \<and>
     (call_family c = Some ActivityMap \<longrightarrow>
        call_arrays c = [column_over (rows d) ''channelIDs''])"
    by (auto simp add: expected_summary_def split: if_splits)
qed

theorem length_dependent_plots_use_filtered_rows_witness:
  "''lengths'' \<in> set (columns reads_channels) \<and>
   ''length_filter'' \<in> set (columns reads_channels) \<and>
   lengths_pointer demo_settings \<in> set (columns reads_channels) \<and>
   map call_family (render_calls (fst (make_plots demo_backend reads_channels demo_settings))) =
     [Some ReadLength, Some ActivityMap] \<and>
   map call_arrays (render_calls (fst (make_plots demo_backend reads_channels demo_settings))) =
     [[[CInt 100]], [[CInt 1, CInt 2]]]"
proof -
  let ?cs = "render_calls (fst (make_plots demo_backend reads_channels demo_settings))"
  have h1: "''lengths'' \<in> set (columns reads_channels)"
    and h2: "''length_filter'' \<in> set (columns reads_channels)"
    and h3: "lengths_pointer demo_settings \<in> set (columns reads_channels)"
    by (simp_all add: reads_channels_def demo_settings_def)
  have fams: "map call_family ?cs = [Some ReadLength, Some ActivityMap]"
    unfolding make_plots_families [OF h1 h2 h3]
    by (simp add: families_present_eq reads_channels_def)
  then obtain c1 c2 where cs: "?cs = [c1, c2]"
    and f1: "call_family c1 = Some ReadLength" and f2: "call_family c2 = Some ActivityMap"
    by (auto simp add: map_eq_Cons_conv)
  have p: "column_over (passing_rows reads_channels) ''lengths'' = [CInt 100]"
    by (simp add: column_over_def passing_rows_def reads_channels_def cell_of_def)
  have a: "column_over (rows reads_channels) ''channelIDs'' = [CInt 1, CInt 2]"
    by (simp add: column_over_def reads_channels_def cell_of_def)
  have m1: "c1 \<in> set ?cs" and m2: "c2 \<in> set ?cs"
    by (simp_all add: cs)
  have a1: "call_arrays c1 = [[CInt 100]]"
    using length_dependent_plots_use_filtered_rows [OF h1 h2 h3, of demo_backend] m1 f1 p
    by auto
  have a2: "call_arrays c2 = [[CInt 1, CInt 2]]"
    using length_dependent_plots_use_filtered_rows [OF h1 h2 h3, of demo_backend] m2 f2 a
    by auto
  have "map call_arrays ?cs = [[[CInt 100]], [[CInt 1, CInt 2]]]"
    by (simp add: cs a1 a2)
  then show ?thesis
    using h1 h2 h3 fams by blast
qed

section \<open>Claims about the statistics files\<close>





text \<open>
  C7, as stated, fails: in a barcoded run whose filtering stage reports that it filtered,
  the per-barcode statistics are written twice, once by each call of make_stats, to the
  same file.
\<close>

theorem barcode_breakdown_written_twice:
  "map (fst \<circ> snd) (breakdown_writes (fst (main filtering_backend barcoded_settings (Inr reads_barcoded)))) =
     [''./NanoStats_barcoded.txt'', ''./NanoStats_barcoded.txt'']"
proof -
  have h1: "barcoded barcoded_settings"
    by (simp add: barcoded_settings_def)
  have h2: "''barcode'' \<in> set (columns reads_barcoded)"
    by (simp add: reads_barcoded_def)
  have f: "filtered_flag filtering_backend reads_barcoded
             (startup_settings filtering_backend barcoded_settings)"
    by (simp add: filtered_flag_def filter_outcome_def filtering_backend_def)
  have p: "path_join (outdir barcoded_settings) (prefix barcoded_settings) = ''./''"
    by (simp add: barcoded_settings_def demo_settings_def path_join_def)
  show ?thesis
    by (simp add: main_breakdown_writes [OF h1 h2 filtering_keeps] f p)
qed

text \<open>
  C7, amended. In barcode mode the per-barcode statistics go to the one file
  NanoStats_barcoded.txt under the startup path. It is written once by every call of
  make_stats: once for the dataset before filtering and, when the filtering stage reports
  that it filtered, once more for the dataset after filtering. It is not written per
  label, and each write covers every distinct label of its dataset, whatever the number
  of its reads.
\<close>

theorem barcode_breakdown_once_per_stats_stage:
  assumes "barcoded args" and "''barcode'' \<in> set (columns d)" and "filter_keeps_columns ext"
  shows "breakdown_writes (fst (main ext args (Inr d))) =
     (label_frames d, path_join (outdir args) (prefix args) @ ''NanoStats_barcoded.txt'',
      Some (barcode_labels d)) #
     (if filtered_flag ext d (startup_settings ext args)
      then [(label_frames (filtered_data ext d (startup_settings ext args)),
             path_join (outdir args) (prefix args) @ ''NanoStats_barcoded.txt'',
             Some (barcode_labels (filtered_data ext d (startup_settings ext args))))]
      else []) \<and>
     map rows (label_frames d) = map (label_rows d) (barcode_labels d)"
  using main_breakdown_writes [OF assms]
  by (simp add: label_frames_def barcode_labels_def column_over_def comp_def)

theorem barcode_breakdown_once_per_stats_stage_witness:
  "barcoded barcoded_settings \<and> ''barcode'' \<in> set (columns reads_barcoded) \<and>
   filter_keeps_columns demo_backend \<and>
   map (fst \<circ> snd) (breakdown_writes (fst (main demo_backend barcoded_settings (Inr reads_barcoded)))) =
     [''./NanoStats_barcoded.txt''] \<and>
   map (snd \<circ> snd) (breakdown_writes (fst (main demo_backend barcoded_settings (Inr reads_barcoded)))) =
     [Some [CStr ''BC01'', CStr ''BC02'']]"
proof -
  have h1: "barcoded barcoded_settings"
    by (simp add: barcoded_settings_def)
  have h2: "''barcode'' \<in> set (columns reads_barcoded)"
    by (simp add: reads_barcoded_def)
  have f: "\<not> filtered_flag demo_backend reads_barcoded (startup_settings demo_backend barcoded_settings)"
    by (simp add: filtered_flag_def filter_outcome_def demo_backend_def)
  have p: "path_join (outdir barcoded_settings) (prefix barcoded_settings) = ''./''"
    by (simp add: barcoded_settings_def demo_settings_def path_join_def)
  have l: "barcode_labels reads_barcoded = [CStr ''BC01'', CStr ''BC02'']"
    by (simp add: barcode_labels_def reads_barcoded_def column_over_def cell_of_def)
  show ?thesis
    using barcode_breakdown_once_per_stats_stage [OF h1 h2 demo_keeps] h1 h2 demo_keeps
    by (simp add: f p l)
qed

section \<open>Claims about the barcodes\<close>

text \<open>
  C2. In barcode mode, on a dataset with the base columns and string labels, the loop
  over the distinct labels returns, and it calls make_plots exactly for the labels with
  more than 5 rows, in order of first occurrence; every such call reaches the backend.
  For every label with 5 rows or fewer nothing is plotted: it gets one notice on standard
  error and one log record, and no exception is raised. The rows of the labels plotted
  and of the labels passed over add up to the rows of the dataset.
\<close>

theorem barcode_fanout_threshold:
  assumes "barcoded st" and "''barcode'' \<in> set (columns d)" and "''lengths'' \<in> set (columns d)"
    and "''length_filter'' \<in> set (columns d)" and "lengths_pointer st \<in> set (columns d)"
    and "string_labels d"
  shows "(\<exists>st'. snd (main_plots ext d st) =
            Inr (st', concat (map (\<lambda>v. rendered ext (fst (label_plots ext d st v)))
                        (retained_labels d)))) \<and>
         render_calls (fst (main_plots ext d st)) =
           concat (map (\<lambda>v. render_calls (fst (label_plots ext d st v))) (retained_labels d)) \<and>
         (\<forall>v \<in> set (retained_labels d). render_calls (fst (label_plots ext d st v)) \<noteq> []) \<and>
         stderr_writes (fst (main_plots ext d st)) =
           map (\<lambda>v. stderr_notice (str_cell ext v)) (skipped_labels d) \<and>
         (\<forall>v \<in> set (skipped_labels d).
            log_notice (str_cell ext v) \<in> set (log_infos (fst (main_plots ext d st)))) \<and>
         (\<forall>v \<in> set (barcode_labels d).
            (v \<in> set (retained_labels d) \<longleftrightarrow> 5 < length (label_rows d v)) \<and>
            (v \<in> set (skipped_labels d) \<longleftrightarrow> length (label_rows d v) \<le> 5)) \<and>
         sum_list (map (\<lambda>v. length (label_rows d v)) (retained_labels d)) +
         sum_list (map (\<lambda>v. length (label_rows d v)) (skipped_labels d)) = df_len d"
proof (intro conjI)
  note mp = main_plots_barcoded [OF assms, of ext]
  from mp have ev: "fst (main_plots ext d st) =
      concat (map (label_events ext d st) (barcode_labels d))"
    by simp
  show "\<exists>st'. snd (main_plots ext d st) =
          Inr (st', concat (map (\<lambda>v. rendered ext (fst (label_plots ext d st v)))
                      (retained_labels d)))"
    using mp by blast
  show "render_calls (fst (main_plots ext d st)) =
        concat (map (\<lambda>v. render_calls (fst (label_plots ext d st v))) (retained_labels d))"
    by (simp add: ev label_events_render retained_labels_def)
  show "\<forall>v \<in> set (retained_labels d). render_calls (fst (label_plots ext d st v)) \<noteq> []"
  proof
    fix v
    let ?sub = "d\<lparr>rows := label_rows d v\<rparr>"
    let ?s = "label_settings st (str_cell ext v)"
    have c: "''lengths'' \<in> set (columns ?sub)" "''length_filter'' \<in> set (columns ?sub)"
      "lengths_pointer ?s \<in> set (columns ?sub)"
      using assms by (simp_all add: label_settings_def)
    have "map call_family (render_calls (fst (make_plots ext ?sub ?s))) =
          map Some (families_present ?sub)"
      by (rule make_plots_families [OF c])
    then have "map call_family (render_calls (fst (make_plots ext ?sub ?s))) \<noteq> []"
      by (simp add: families_present_eq)
    then show "render_calls (fst (label_plots ext d st v)) \<noteq> []"
      by (auto simp add: label_plots_def)
  qed
  show "stderr_writes (fst (main_plots ext d st)) =
        map (\<lambda>v. stderr_notice (str_cell ext v)) (skipped_labels d)"
    by (simp add: ev label_events_stderr skipped_labels_def)
  show "\<forall>v \<in> set (skipped_labels d).
          log_notice (str_cell ext v) \<in> set (log_infos (fst (main_plots ext d st)))"
    unfolding ev by (auto simp add: skipped_labels_def intro: label_events_log)
  show "\<forall>v \<in> set (barcode_labels d).
          (v \<in> set (retained_labels d) \<longleftrightarrow> 5 < length (label_rows d v)) \<and>
          (v \<in> set (skipped_labels d) \<longleftrightarrow> length (label_rows d v) \<le> 5)"
    by (auto simp add: retained_labels_def skipped_labels_def)
  show "sum_list (map (\<lambda>v. length (label_rows d v)) (retained_labels d)) +
        sum_list (map (\<lambda>v. length (label_rows d v)) (skipped_labels d)) = df_len d"
    by (rule labels_partition [OF assms(6)])
qed

theorem barcode_fanout_threshold_witness:
  \<open>barcoded barcoded_settings \<and> ''barcode'' \<in> set (columns reads_barcoded) \<and>
   ''lengths'' \<in> set (columns reads_barcoded) \<and>
   ''length_filter'' \<in> set (columns reads_barcoded) \<and>
   lengths_pointer barcoded_settings \<in> set (columns reads_barcoded) \<and>
   string_labels reads_barcoded \<and>
   retained_labels reads_barcoded = [CStr ''BC01''] \<and>
   skipped_labels reads_barcoded = [CStr ''BC02''] \<and>
   render_calls (fst (main_plots demo_backend reads_barcoded barcoded_settings)) =
     render_calls (fst (label_plots demo_backend reads_barcoded barcoded_settings (CStr ''BC01''))) \<and>
   stderr_writes (fst (main_plots demo_backend reads_barcoded barcoded_settings)) =
     [''Found barcode BC02 less than 5x, ignoring...\<newline>''] \<and>
   ''Found barcode BC02 less than 5 times, ignoring''
     \<in> set (log_infos (fst (main_plots demo_backend reads_barcoded barcoded_settings))) \<and>
   6 + 1 = df_len reads_barcoded\<close>
proof -
  have h1: "barcoded barcoded_settings"
    by (simp add: barcoded_settings_def)
  have h2: "''barcode'' \<in> set (columns reads_barcoded)"
    and h3: "''lengths'' \<in> set (columns reads_barcoded)"
    and h4: "''length_filter'' \<in> set (columns reads_barcoded)"
    and h5: "lengths_pointer barcoded_settings \<in> set (columns reads_barcoded)"
    by (simp_all add: reads_barcoded_def barcoded_settings_def demo_settings_def)
  note h6 = reads_barcoded_string_labels
  have r: "retained_labels reads_barcoded = [CStr ''BC01'']"
    by (simp add: retained_labels_def reads_barcoded_labels reads_barcoded_counts)
  have s: "skipped_labels reads_barcoded = [CStr ''BC02'']"
    by (simp add: skipped_labels_def reads_barcoded_labels reads_barcoded_counts)
  show ?thesis
    using barcode_fanout_threshold [OF h1 h2 h3 h4 h5 h6, of demo_backend] h1 h2 h3 h4 h5 h6
    by (simp add: r s reads_barcoded_counts stderr_notice_def log_notice_def str_cell_def)
qed

section \<open>Claims about the driver\<close>

text \<open>
  C6 does not hold of the code in barcode mode. The loop over the barcodes sets the path
  in the settings for every label, before it counts the rows of the label, and nothing
  sets it back; make_report then builds the name of the report from that path. With the
  reads of \<open>reads_barcoded\<close>, output directory "." and an empty prefix, the report
  is written to ./BC02_NanoPlot-report.html, named after the last label, which is one
  that was passed over for having too few reads; the startup path would give
  ./NanoPlot-report.html, which is where the run without barcodes writes it.
\<close>

theorem report_named_after_last_barcode:
  "files_written (fst (main demo_backend barcoded_settings (Inr reads_barcoded))) =
     [''./BC02_NanoPlot-report.html''] \<and>
   path (startup_settings demo_backend barcoded_settings) @ ''NanoPlot-report.html'' =
     ''./NanoPlot-report.html'' \<and>
   CStr ''BC02'' \<in> set (skipped_labels reads_barcoded) \<and>
   files_written (fst (main demo_backend demo_settings (Inr reads_channels))) =
     [''./NanoPlot-report.html'']"
proof (intro conjI)
  let ?st = "startup_settings demo_backend barcoded_settings"
  let ?st1 = "settings_after_stats demo_backend reads_barcoded ?st"
  have fd: "filtered_data demo_backend reads_barcoded ?st = reads_barcoded"
    by (simp add: filtered_data_def filter_outcome_def demo_backend_def)
  have b: "barcoded ?st \<longrightarrow> ''barcode'' \<in> set (columns reads_barcoded)"
    by (simp add: reads_barcoded_def)
  have s: "snd (main_stats demo_backend reads_barcoded ?st) = Inr (reads_barcoded, ?st1)"
    using main_stats_res [OF b demo_keeps] by (simp add: fd)
  have st1: "barcoded ?st1" "lengths_pointer ?st1 = ''lengths''" "\<not> filtered ?st1"
    "length (statsfile ?st1) = 1" "outdir ?st1 = ''.''" "prefix ?st1 = []"
    by (simp_all add: settings_after_stats_def startup_settings_def barcoded_settings_def
        demo_settings_def filter_outcome_def filtered_flag_def demo_backend_def)
  have c: "''barcode'' \<in> set (columns reads_barcoded)" "''lengths'' \<in> set (columns reads_barcoded)"
    "''length_filter'' \<in> set (columns reads_barcoded)"
    "lengths_pointer ?st1 \<in> set (columns reads_barcoded)"
    unfolding st1(2) by (simp_all add: reads_barcoded_def)
  from main_plots_barcoded [OF st1(1) c reads_barcoded_string_labels, of demo_backend]
  obtain st2 ps where
    p: "snd (main_plots demo_backend reads_barcoded ?st1) = Inr (st2, ps)" and
    q: "path st2 = ''./BC02_''"
    by (auto simp add: reads_barcoded_labels st1 str_cell_def path_join_def)
  from main_plots_keeps [OF p] obtain p' t' where "st2 = ?st1\<lparr>path := p', title := t'\<rparr>"
    by blast
  then have k: "(if filtered st2 then 2 else 1) \<le> length (statsfile st2)"
    by (simp add: st1)
  show "files_written (fst (main demo_backend barcoded_settings (Inr reads_barcoded))) =
        [''./BC02_NanoPlot-report.html'']"
    using main_run [OF s p k] by (simp add: q)
  show "path (startup_settings demo_backend barcoded_settings) @ ''NanoPlot-report.html'' =
        ''./NanoPlot-report.html''"
    by (simp add: startup_settings_def barcoded_settings_def demo_settings_def path_join_def)
  show "CStr ''BC02'' \<in> set (skipped_labels reads_barcoded)"
    by (simp add: skipped_labels_def reads_barcoded_labels reads_barcoded_counts)
next
  let ?st = "startup_settings demo_backend demo_settings"
  let ?st1 = "settings_after_stats demo_backend reads_channels ?st"
  have fd: "filtered_data demo_backend reads_channels ?st = reads_channels"
    by (simp add: filtered_data_def filter_outcome_def demo_backend_def)
  have b: "barcoded ?st \<longrightarrow> ''barcode'' \<in> set (columns reads_channels)"
    by (simp add: startup_settings_def demo_settings_def)
  have s: "snd (main_stats demo_backend reads_channels ?st) = Inr (reads_channels, ?st1)"
    using main_stats_res [OF b demo_keeps] by (simp add: fd)
  have st1: "\<not> barcoded ?st1" "lengths_pointer ?st1 = ''lengths''" "\<not> filtered ?st1"
    "length (statsfile ?st1) = 1" "path ?st1 = ''./''"
    by (simp_all add: settings_after_stats_def startup_settings_def
        demo_settings_def filter_outcome_def filtered_flag_def demo_backend_def path_join_def)
  have c: "''lengths'' \<in> set (columns reads_channels)"
    "''length_filter'' \<in> set (columns reads_channels)"
    "lengths_pointer ?st1 \<in> set (columns reads_channels)"
    unfolding st1(2) by (simp_all add: reads_channels_def)
  note p = main_plots_unbarcoded_res [OF st1(1) c, of demo_backend]
  have k: "(if filtered ?st1 then 2 else 1) \<le> length (statsfile ?st1)"
    by (simp add: st1)
  show "files_written (fst (main demo_backend demo_settings (Inr reads_channels))) =
        [''./NanoPlot-report.html'']"
    using main_run [OF s p k] by (simp add: st1)
qed

text \<open>
  C5, as stated, fails in one point: the message for the user is printed with print, which
  writes to standard output; nothing is written to standard error. A barcoded run on a
  dataset without a barcode column raises KeyError in make_stats and shows it.
\<close>

theorem crash_message_not_on_stderr:
  "snd (main demo_backend barcoded_settings (Inr reads_channels)) = Inl (KeyError ''barcode'') \<and>
   stderr_writes (fst (main demo_backend barcoded_settings (Inr reads_channels))) = [] \<and>
   stdout_lines (fst (main demo_backend barcoded_settings (Inr reads_channels))) = crash_message \<and>
   crash_message \<noteq> []"
proof -
  have a: "barcoded barcoded_settings"
    by (simp add: barcoded_settings_def)
  have b: "''barcode'' \<notin> set (columns reads_channels)"
    by (simp add: reads_channels_def)
  note f = main_body_no_barcode [OF a b, of demo_backend]
  from f have e: "snd (main_body demo_backend barcoded_settings (Inr reads_channels)) =
      Inl (KeyError ''barcode'')"
    by simp
  have r: "snd (main demo_backend barcoded_settings (Inr reads_channels)) =
      Inl (KeyError ''barcode'')"
    using main_handler [OF e] by blast
  have o: "stdout_lines (fst (main demo_backend barcoded_settings (Inr reads_channels))) =
      crash_message"
    using main_handler [OF e] by blast
  have "stderr_writes (fst (main demo_backend barcoded_settings (Inr reads_channels))) =
      stderr_writes (fst (main_body demo_backend barcoded_settings (Inr reads_channels)))"
    using main_handler [OF e] by blast
  also have "\<dots> = []"
    using f by blast
  finally have se: "stderr_writes (fst (main demo_backend barcoded_settings
      (Inr reads_channels))) = []" .
  have ne: "crash_message \<noteq> []"
    by (simp add: crash_message_def)
  show ?thesis
    using r o se ne by blast
qed

text \<open>
  C5, amended. Whatever exception the body of main raises, in whichever stage, main logs
  it as an error, prints the five lines of the fixed message to standard output, writes
  nothing to standard error itself, and raises the exception again.
\<close>

theorem main_logs_prints_and_reraises:
  assumes "snd (main_body ext args ingest) = Inl e"
  shows "snd (main ext args ingest) = Inl e \<and>
         fst (main ext args ingest) =
           fst (main_body ext args ingest) @ [LogError e] @ map Print crash_message \<and>
         log_errors (fst (main ext args ingest)) = [e] \<and>
         stdout_lines (fst (main ext args ingest)) = crash_message \<and>
         stderr_writes (fst (main ext args ingest)) =
           stderr_writes (fst (main_body ext args ingest))"
proof -
  have m: "main ext args ingest =
      (fst (main_body ext args ingest) @ [LogError e] @ map Print crash_message, Inl e)"
    using assms by (simp add: main_def)
  have body: "stdout_lines (fst (main_body ext args ingest)) = []"
    "log_errors (fst (main_body ext args ingest)) = []"
    using main_body_quiet [of ext args ingest] by simp_all
  have handler: "stdout_lines ([LogError e] @ map Print crash_message) = crash_message"
    "log_errors ([LogError e] @ map Print crash_message) = [e]"
    "stderr_writes ([LogError e] @ map Print crash_message) = []"
    using handler_projections [of e crash_message] by simp_all
  have "snd (main ext args ingest) = Inl e"
    by (simp add: m)
  moreover have "fst (main ext args ingest) =
      fst (main_body ext args ingest) @ [LogError e] @ map Print crash_message"
    by (simp add: m)
  moreover have "log_errors (fst (main ext args ingest)) =
      log_errors (fst (main_body ext args ingest)) @
      log_errors ([LogError e] @ map Print crash_message)"
    by (simp only: m fst_conv log_errors_append)
  then have "log_errors (fst (main ext args ingest)) = [e]"
    by (simp only: body handler append_Nil)
  moreover have "stdout_lines (fst (main ext args ingest)) =
      stdout_lines (fst (main_body ext args ingest)) @
      stdout_lines ([LogError e] @ map Print crash_message)"
    by (simp only: m fst_conv stdout_lines_append)
  then have "stdout_lines (fst (main ext args ingest)) = crash_message"
    by (simp only: body handler append_Nil)
  moreover have "stderr_writes (fst (main ext args ingest)) =
      stderr_writes (fst (main_body ext args ingest)) @
      stderr_writes ([LogError e] @ map Print crash_message)"
    by (simp only: m fst_conv stderr_writes_append)
  then have "stderr_writes (fst (main ext args ingest)) =
      stderr_writes (fst (main_body ext args ingest))"
    by (simp only: handler append_Nil2)
  ultimately show ?thesis by blast
qed

theorem main_logs_prints_and_reraises_witness:
  "snd (main_body demo_backend demo_settings (Inl (ExternalError ''unreadable input''))) =
     Inl (ExternalError ''unreadable input'') \<and>
   snd (main demo_backend demo_settings (Inl (ExternalError ''unreadable input''))) =
     Inl (ExternalError ''unreadable input'') \<and>
   log_errors (fst (main demo_backend demo_settings (Inl (ExternalError ''unreadable input'')))) =
     [ExternalError ''unreadable input''] \<and>
   stdout_lines (fst (main demo_backend demo_settings (Inl (ExternalError ''unreadable input'')))) =
     crash_message"
proof -
  have h: "snd (main_body demo_backend demo_settings (Inl (ExternalError ''unreadable input''))) =
           Inl (ExternalError ''unreadable input'')"
    by (simp add: main_body_def Let_def snd_bindP snd_emit liftE_def)
  show ?thesis
    using main_logs_prints_and_reraises [OF h] h by blast
qed

section \<open>Claims about the report\<close>

text \<open>
  C4, as stated, fails in its last part: make_report does not look at the anchors of the
  plots, and two plots with the same title, as the histograms of two barcodes have, get
  the same anchor in a report that is written all the same.
\<close>

theorem duplicate_titles_share_an_anchor:
  "histogram_bc01 \<noteq> histogram_bc02 \<and>
   plot_anchor histogram_bc01 = plot_anchor histogram_bc02 \<and>
   \<not> distinct (map plot_anchor [histogram_bc01, histogram_bc02]) \<and>
   snd (make_report demo_backend [histogram_bc01, histogram_bc02] report_settings) =
     Inr ''./NanoPlot-report.html''"
proof -
  have k: "(if filtered report_settings then 2 else 1) \<le> length (statsfile report_settings)"
    by (simp add: report_settings_def demo_settings_def)
  have p: "path report_settings = ''./''"
    by (simp add: report_settings_def demo_settings_def)
  have "snd (make_report demo_backend [histogram_bc01, histogram_bc02] report_settings) =
        Inr ''./NanoPlot-report.html''"
    using make_report_ok [OF k, of demo_backend "[histogram_bc01, histogram_bc02]"]
    by (simp add: p)
  then show ?thesis
    by (simp add: histogram_bc01_def histogram_bc02_def plot_anchor_def)
qed

text \<open>
  C4, amended. When the list of statistics files has the entries that the filtered flag
  calls for, the table of contents of the report that make_report writes has the
  statistics links that the flag selects (the two links for before and after filtering,
  or the single "Summary Statistics" link), then the link to the plots, then one link for
  each plot in the order of the list; the headings of the plots follow in the same order.
  The anchor of a plot, in its link and in its heading, is its title with every space
  replaced by an underscore. Anchors are not checked for uniqueness; they are pairwise
  distinct when the titles are pairwise distinct and contain no underscore.
\<close>

theorem report_toc_and_anchors:
  assumes "(if filtered st then 2 else 1) \<le> length (statsfile st)"
  shows \<open>\<exists>sp hc. stats_panel ext st = Inr sp \<and>
     hc = [''<body>'', ''<div class="panel panelC">''] @ toc_stats_links st @
          [''<p><strong><a href="#plots">Plots</a></strong></p>''] @
          map toc_plot_link ps @ [''</div>''] @ sp @ plots_panel ext ps \<and>
     html_content ext ps st = Inr hc \<and>
     fst (make_report ext ps st) =
       [LogInfo ''Writing html report.'',
        WriteFile (path st @ ''NanoPlot-report.html'')
          (html_head ext @ str_join ''\<newline>'' hc @ ''</div></body></html>'')] \<and>
     toc_stats_links st =
       (if filtered st then
          [''<p><strong><a href="#stats0">Summary Statistics prior to filtering</a></strong></p>'',
           ''<p><strong><a href="#stats1">Summary Statistics after filtering</a></strong></p>'']
        else [''<p><strong><a href="#stats0">Summary Statistics</a></strong></p>'']) \<and>
     plots_panel ext ps =
       ''<h2 id="plots">Plots</h2>'' #
       concat (map (\<lambda>p. [plot_heading ext p,
                           ''\<newline><br>\<newline><br>\<newline><br>\<newline><br>'']) ps) \<and>
     (\<forall>p \<in> set ps.
        toc_plot_link p =
          ''<p style="margin-left:20px"><a href="#'' @ plot_anchor p @ ''">'' @
          plot_title p @ ''</a></p>'' \<and>
        plot_heading ext p =
          ''\<newline><h3 id="'' @ plot_anchor p @ ''">'' @ plot_title p @ ''</h3>\<newline>'' @
          encode ext p \<and>
        plot_anchor p = map (\<lambda>c. if c = CHR '' '' then CHR ''_'' else c) (plot_title p)) \<and>
     ((\<forall>p \<in> set ps. CHR ''_'' \<notin> set (plot_title p)) \<and> distinct (map plot_title ps) \<longrightarrow>
        distinct (map plot_anchor ps))\<close>
proof -
  obtain sp where sp: "stats_panel ext st = Inr sp"
    using stats_panel_ok [OF assms] by blast
  define hc where \<open>hc = [''<body>'', ''<div class="panel panelC">''] @ toc_stats_links st @
          [''<p><strong><a href="#plots">Plots</a></strong></p>''] @
          map toc_plot_link ps @ [''</div>''] @ sp @ plots_panel ext ps\<close>
  have c: "html_content ext ps st = Inr hc"
    unfolding hc_def by (rule html_content_ok [OF sp])
  have e: \<open>fst (make_report ext ps st) =
       [LogInfo ''Writing html report.'',
        WriteFile (path st @ ''NanoPlot-report.html'')
          (html_head ext @ str_join ''\<newline>'' hc @ ''</div></body></html>'')]\<close>
    by (rule make_report_events [OF c])
  have t: \<open>toc_stats_links st =
       (if filtered st then
          [''<p><strong><a href="#stats0">Summary Statistics prior to filtering</a></strong></p>'',
           ''<p><strong><a href="#stats1">Summary Statistics after filtering</a></strong></p>'']
        else [''<p><strong><a href="#stats0">Summary Statistics</a></strong></p>''])\<close>
    by (simp add: toc_stats_links_def)
  have pp: \<open>plots_panel ext ps =
       ''<h2 id="plots">Plots</h2>'' #
       concat (map (\<lambda>p. [plot_heading ext p,
                           ''\<newline><br>\<newline><br>\<newline><br>\<newline><br>'']) ps)\<close>
    by (simp add: plots_panel_def)
  have l: \<open>\<forall>p \<in> set ps.
        toc_plot_link p =
          ''<p style="margin-left:20px"><a href="#'' @ plot_anchor p @ ''">'' @
          plot_title p @ ''</a></p>'' \<and>
        plot_heading ext p =
          ''\<newline><h3 id="'' @ plot_anchor p @ ''">'' @ plot_title p @ ''</h3>\<newline>'' @
          encode ext p \<and>
        plot_anchor p = map (\<lambda>c. if c = CHR '' '' then CHR ''_'' else c) (plot_title p)\<close>
    by (simp add: toc_plot_link_def plot_heading_def plot_anchor_def replace_spaces_def)
  have d: "(\<forall>p \<in> set ps. CHR ''_'' \<notin> set (plot_title p)) \<and> distinct (map plot_title ps) \<longrightarrow>
        distinct (map plot_anchor ps)"
    using anchors_distinct by blast
  show ?thesis
    using sp hc_def c e t pp l d by blast
qed

theorem report_toc_and_anchors_witness:
  "(if filtered report_settings then 2 else 1) \<le> length (statsfile report_settings) \<and>
   CHR ''_'' \<notin> set (plot_title histogram_bc01) \<and> CHR ''_'' \<notin> set (plot_title yield_plot) \<and>
   distinct (map plot_title [histogram_bc01, yield_plot]) \<and>
   distinct (map plot_anchor [histogram_bc01, yield_plot]) \<and>
   plot_anchor histogram_bc01 = ''Histogram_of_read_lengths'' \<and>
   files_written (fst (make_report demo_backend [histogram_bc01, yield_plot] report_settings)) =
     [''./NanoPlot-report.html'']"
proof -
  have k: "(if filtered report_settings then 2 else 1) \<le> length (statsfile report_settings)"
    by (simp add: report_settings_def demo_settings_def)
  have u: "\<forall>p \<in> set [histogram_bc01, yield_plot]. CHR ''_'' \<notin> set (plot_title p)"
    by (simp add: histogram_bc01_def yield_plot_def)
  have t: "distinct (map plot_title [histogram_bc01, yield_plot])"
    by (simp add: histogram_bc01_def yield_plot_def)
  have p: "path report_settings = ''./''"
    by (simp add: report_settings_def demo_settings_def)
  from report_toc_and_anchors [OF k, of demo_backend "[histogram_bc01, yield_plot]"]
  obtain hc where
    e: "fst (make_report demo_backend [histogram_bc01, yield_plot] report_settings) =
       [LogInfo ''Writing html report.'',
        WriteFile (path report_settings @ ''NanoPlot-report.html'')
          (html_head demo_backend @ str_join ''\<newline>'' hc @ ''</div></body></html>'')]" and
    a: "\<forall>p \<in> set [histogram_bc01, yield_plot].
          plot_anchor p = map (\<lambda>c. if c = CHR '' '' then CHR ''_'' else c) (plot_title p)" and
    d: "(\<forall>p \<in> set [histogram_bc01, yield_plot]. CHR ''_'' \<notin> set (plot_title p)) \<and>
        distinct (map plot_title [histogram_bc01, yield_plot]) \<longrightarrow>
        distinct (map plot_anchor [histogram_bc01, yield_plot])"
    by blast
  have d': "distinct (map plot_anchor [histogram_bc01, yield_plot])"
    using d u t by blast
  have a': "plot_anchor histogram_bc01 = ''Histogram_of_read_lengths''"
    using a by (simp add: histogram_bc01_def)
  have f: "files_written (fst (make_report demo_backend [histogram_bc01, yield_plot]
      report_settings)) = [''./NanoPlot-report.html'']"
    unfolding e by (simp add: files_written_def p)
  have u': "CHR ''_'' \<notin> set (plot_title histogram_bc01)" "CHR ''_'' \<notin> set (plot_title yield_plot)"
    using u by simp_all
  show ?thesis
    using k u' t d' a' f by blast
qed

end
